theory Spec2Isabelle
  imports Complex_Main "HOL-Library.AList"
begin

section \<open>Data model of the notifier\<close>

text \<open>
  The embedding follows \<^verbatim>\<open>src/unciv_notifier.py\<close>. Python's module globals become one
  record that every function takes and returns; the outcome of every external call (the
  HTTP request, the clock, the chat transport, the file system) is an input of the
  function that makes the call; what a function does to the outside world is returned as
  a list of effects.

  A naive local \<^verbatim>\<open>datetime\<close> is an integer number of microseconds on one time line and a
  \<^verbatim>\<open>timedelta\<close> is an integer number of microseconds (both are exact in Python). The
  float of \<^verbatim>\<open>time.time()\<close> is a real number of seconds.
\<close>

type_synonym datetime = int
type_synonym timedelta = int

definition minutes :: "int \<Rightarrow> timedelta" where
  "minutes n = n * 60000000"

definition hours :: "int \<Rightarrow> timedelta" where
  "hours n = n * 3600000000"

definition REMINDER_SCHEDULE :: "timedelta list" where
  "REMINDER_SCHEDULE = [minutes 10, minutes 30, hours 1]"

definition ERROR_DEBOUNCE_SECONDS :: real where
  "ERROR_DEBOUNCE_SECONDS = 300"

text \<open>
  A value stored under \<^verbatim>\<open>'last_reminded_time'\<close> or \<^verbatim>\<open>'last_turn_change_time'\<close> of a
  reminder state (a \<^verbatim>\<open>Dict[str, Any]\<close>), classified by what the code asks of it: whether the
  key is there, whether the value is a \<^verbatim>\<open>str\<close>, and what \<^verbatim>\<open>datetime.fromisoformat\<close> makes
  of the string. \<open>IsoStr t\<close> is the string \<^verbatim>\<open>t.isoformat()\<close>, which \<^verbatim>\<open>fromisoformat\<close> reads
  back as \<open>t\<close>; \<open>BadStr\<close> is a string that \<^verbatim>\<open>fromisoformat\<close> rejects with ValueError.
\<close>

datatype stamp = Missing | NotStr | IsoStr datetime | BadStr string

record reminder_state =
  last_turn_change_time :: stamp
  next_reminder_index :: "nat option"
  last_reminded_time :: stamp

text \<open>The JSON object that \<^verbatim>\<open>save_state\<close> writes; a key that \<^verbatim>\<open>load_state\<close> reads with a
  default may be absent from a file.\<close>

record snapshot =
  snap_GAME_ID :: "string option"
  snap_CURRENT_GAME_URL :: "string option"
  snap_MAIN_CHAT_ID :: "int option"
  snap_PLAYER_LOGINS :: "(string \<times> string) list option"
  snap_LAST_TURN_PLAYER :: "string option"
  snap_BOT_LANGUAGE :: "string option"
  snap_MONITOR_INTERVAL :: "int option"

datatype disk = NoFile | Unreadable | File snapshot

datatype py_exc = TimeoutError | ClientError | JSONDecodeError | OverflowError | ValueError
  | AttributeError | TransportError

text \<open>The game JSON, as far as the code reads it. A field is \<open>None\<close> when the key is
  absent or null; \<open>currentTurnStartTime\<close> is an integer number of milliseconds and is
  \<open>None\<close> also when the value is not a number. A turn start given as a JSON float or as
  a JSON boolean (which Python takes for the integer 0 or 1) is not modelled. A payload of the server has no
  \<^verbatim>\<open>_not_modified\<close> key: that key marks the dictionary the fetcher makes up for a 304
  answer, which is \<open>NotModified\<close> below.\<close>

record civ =
  civName :: "string option"
  playerType :: "string option"

record payload =
  currentPlayer :: "string option"
  currentTurnStartTime :: "int option"
  civilizations :: "civ list"

datatype json_data = JNull | JNonObject | JObject payload

text \<open>What \<^verbatim>\<open>session.get\<close> does: it times out, fails in the transport, answers 304, answers
  with an error status (\<^verbatim>\<open>raise_for_status\<close> raises), or answers 200 with an ETag header (or
  none) and a body that \<^verbatim>\<open>resp.json()\<close> parses (or not). Where it does not, the exception
  is aiohttp's ContentTypeError (a ClientError) or json's JSONDecodeError; the model names
  it JSONDecodeError, and no caller tells the two apart.\<close>

datatype http_response = RespTimeout | RespClientError | Resp304 | RespErrorStatus
  | RespOk "string option" "json_data option"

datatype fetched = NotModified | Data json_data

text \<open>What \<^verbatim>\<open>datetime.fromtimestamp\<close> does with a number: a local datetime, the ValueError
  that the caller catches, or another exception (OverflowError or OSError outside the
  platform's range), which the caller does not catch.\<close>

datatype conv = ConvOk datetime | ConvValueError | ConvRaises py_exc

datatype message =
    ErrorServerDown
  | NotifyMainPing string string
  | NotifyMainNoPing string
  | ReminderPing string timedelta
  | ReminderNoPing string timedelta
  | SetgameUsage
  | SetgameFailFetch string
  | SetgameFailConnect
  | SetgameSuccess string "string list" int
  | PauseOn
  | PauseOff
  | PauseOffPing string string
  | PauseOffNoPing string
  | StatusNoGame
  | StatusCurrent string bool string "string option"
  | StatusUnknown string bool
  | ListEmpty
  | ListSubscriptions "(string \<times> string) list"

datatype effect =
    HttpGet string "string option"
  | Sent int message
  | SendFailed int message
  | Reply message
  | ReplyFailed message
  | Wrote snapshot
  | WriteFailed snapshot

record bot_state =
  GAME_ID :: "string option"
  CURRENT_GAME_URL :: "string option"
  LAST_TURN_PLAYER :: "string option"
  MAIN_CHAT_ID :: "int option"
  NOTIFY_PAUSED :: bool
  AVAILABLE_NATIONS :: "string list"
  PLAYER_LOGINS :: "(string \<times> string) list"
  PLAYER_NOTIFICATION_STATE :: "string \<rightharpoonup> reminder_state"
  ETAG_CACHE :: "string \<rightharpoonup> string"
  BOT_LANGUAGE :: string
  MONITOR_INTERVAL_SECONDS_DEFAULT :: int
  last_error_time_by_chat :: "int \<rightharpoonup> real"
  STATE_FILE :: disk

text \<open>The globals as the module sets them at import (lines 58 to 70); the language and
  the interval come from the process environment, the file is what is on disk.\<close>

definition initial_state :: "string \<Rightarrow> int \<Rightarrow> disk \<Rightarrow> bot_state" where
  "initial_state lang interval d =
     \<lparr>GAME_ID = None, CURRENT_GAME_URL = None, LAST_TURN_PLAYER = None, MAIN_CHAT_ID = None,
      NOTIFY_PAUSED = False, AVAILABLE_NATIONS = [], PLAYER_LOGINS = [],
      PLAYER_NOTIFICATION_STATE = Map.empty, ETAG_CACHE = Map.empty, BOT_LANGUAGE = lang,
      MONITOR_INTERVAL_SECONDS_DEFAULT = interval, last_error_time_by_chat = Map.empty,
      STATE_FILE = d\<rparr>"

section \<open>Truthiness and normalisation\<close>

text \<open>\<^verbatim>\<open>if x:\<close> on an optional string: None and the empty string are false.\<close>

definition truthy :: "string option \<Rightarrow> string option" where
  "truthy x = (case x of None \<Rightarrow> None | Some v \<Rightarrow> if v = [] then None else Some v)"

text \<open>\<^verbatim>\<open>if MAIN_CHAT_ID:\<close> on an optional integer: None and 0 are false.\<close>

definition truthy_chat :: "int option \<Rightarrow> int option" where
  "truthy_chat x = (case x of None \<Rightarrow> None | Some c \<Rightarrow> if c = 0 then None else Some c)"

text \<open>\<^verbatim>\<open>str.upper\<close> on the ASCII letters; every other character stays as it is. Python
  maps every cased character, so the model is \<^verbatim>\<open>str.upper\<close> on names written in ASCII. The
  properties below read \<open>upper\<close> only through what it returns (\<open>upper p = p\<close>,
  \<open>upper raw \<noteq> prev\<close>), apart from the examples, whose names are ASCII.\<close>

definition upper_char :: "char \<Rightarrow> char" where
  "upper_char c =
     (case map_of (zip ''abcdefghijklmnopqrstuvwxyz'' ''ABCDEFGHIJKLMNOPQRSTUVWXYZ'') c of
        Some u \<Rightarrow> u
      | None \<Rightarrow> c)"

definition upper :: "string \<Rightarrow> string" where
  "upper s = map upper_char s"

definition normalize :: "string option \<Rightarrow> string option" where
  "normalize n = (case truthy n of None \<Rightarrow> n | Some v \<Rightarrow> Some (upper v))"

definition get_raw_nation_name :: "bot_state \<Rightarrow> string \<Rightarrow> string" where
  "get_raw_nation_name s normalized_name =
     (case filter (\<lambda>n. upper n = normalized_name) (AVAILABLE_NATIONS s) of
        [] \<Rightarrow> normalized_name
      | n # _ \<Rightarrow> n)"

section \<open>The snapshot store\<close>

text \<open>\<^verbatim>\<open>save_state\<close> (lines 212 to 229): the flag says whether \<^verbatim>\<open>atomic_write_json\<close> succeeds;
  its exception is logged and swallowed.\<close>

definition save_state :: "bool \<Rightarrow> bot_state \<Rightarrow> bot_state \<times> effect list" where
  "save_state write_ok s =
     (let payload = \<lparr>snap_GAME_ID = GAME_ID s,
                      snap_CURRENT_GAME_URL = CURRENT_GAME_URL s,
                      snap_MAIN_CHAT_ID = MAIN_CHAT_ID s,
                      snap_PLAYER_LOGINS = Some (PLAYER_LOGINS s),
                      snap_LAST_TURN_PLAYER = LAST_TURN_PLAYER s,
                      snap_BOT_LANGUAGE = Some (BOT_LANGUAGE s),
                      snap_MONITOR_INTERVAL = Some (MONITOR_INTERVAL_SECONDS_DEFAULT s)\<rparr>
      in if write_ok then (s\<lparr>STATE_FILE := File payload\<rparr>, [Wrote payload])
         else (s, [WriteFailed payload]))"

text \<open>\<^verbatim>\<open>load_state\<close> (lines 231 to 253).\<close>

definition load_state :: "bot_state \<Rightarrow> bool \<times> bot_state" where
  "load_state s =
     (case STATE_FILE s of
        NoFile \<Rightarrow> (False, s)
      | Unreadable \<Rightarrow> (False, s)
      | File payload \<Rightarrow>
          (True,
           s\<lparr>GAME_ID := snap_GAME_ID payload,
             CURRENT_GAME_URL := snap_CURRENT_GAME_URL payload,
             MAIN_CHAT_ID := snap_MAIN_CHAT_ID payload,
             PLAYER_LOGINS := (case snap_PLAYER_LOGINS payload of None \<Rightarrow> [] | Some l \<Rightarrow> l),
             LAST_TURN_PLAYER := snap_LAST_TURN_PLAYER payload,
             BOT_LANGUAGE := (case snap_BOT_LANGUAGE payload of None \<Rightarrow> ''en'' | Some l \<Rightarrow> l),
             MONITOR_INTERVAL_SECONDS_DEFAULT :=
               (case snap_MONITOR_INTERVAL payload of None \<Rightarrow> 60 | Some i \<Rightarrow> i)\<rparr>))"

text \<open>A process restart: the module is imported again, so every global has its initial
  value, and \<^verbatim>\<open>main\<close> calls \<^verbatim>\<open>load_state\<close> on the file the old process left.\<close>

definition restart :: "string \<Rightarrow> int \<Rightarrow> bot_state \<Rightarrow> bot_state" where
  "restart lang interval s = snd (load_state (initial_state lang interval (STATE_FILE s)))"

section \<open>The conditional fetcher\<close>

text \<open>\<^verbatim>\<open>fetch_game_json\<close> (lines 264 to 285). A raised exception is the \<open>Inl\<close> result; the
  ETag is stored before the body is parsed, so the cache can change on a failure.\<close>

definition fetch_game_json ::
  "http_response \<Rightarrow> string \<Rightarrow> bot_state \<Rightarrow> (py_exc + fetched) \<times> bot_state \<times> effect list" where
  "fetch_game_json resp url s =
     (let fx = [HttpGet url (truthy (ETAG_CACHE s url))] in
      case resp of
        RespTimeout \<Rightarrow> (Inl TimeoutError, s, fx)
      | RespClientError \<Rightarrow> (Inl ClientError, s, fx)
      | Resp304 \<Rightarrow> (Inr NotModified, s, fx)
      | RespErrorStatus \<Rightarrow> (Inl ClientError, s, fx)
      | RespOk etag_new body \<Rightarrow>
          (let s1 = (case truthy etag_new of
                       None \<Rightarrow> s
                     | Some t \<Rightarrow> s\<lparr>ETAG_CACHE := (ETAG_CACHE s)(url \<mapsto> t)\<rparr>)
           in case body of
                None \<Rightarrow> (Inl JSONDecodeError, s1, fx)
              | Some d \<Rightarrow> (Inr (Data d), s1, fx)))"

section \<open>The monitor tick\<close>

text \<open>What the world does during one tick: the answer to the one HTTP request, the
  library's \<^verbatim>\<open>datetime.fromtimestamp\<close>, the readings of \<^verbatim>\<open>datetime.now()\<close> at lines 545,
  613, 619 and 636, the reading of \<^verbatim>\<open>time.time()\<close> at line 505, whether
  \<^verbatim>\<open>bot.send_message\<close> delivers, and whether the state file can be written.\<close>

record tick_env =
  response :: http_response
  fromtimestamp :: "int \<Rightarrow> conv"
  now_start :: datetime
  now_repair :: datetime
  now_check :: datetime
  now_sent :: datetime
  time_time :: real
  deliver_ok :: bool
  write_ok :: bool

text \<open>\<^verbatim>\<open>send_debounced_error\<close> (lines 503 to 512).\<close>

definition send_debounced_error ::
  "real \<Rightarrow> bool \<Rightarrow> int \<Rightarrow> message \<Rightarrow> bot_state \<Rightarrow> bot_state \<times> effect list" where
  "send_debounced_error now delivers chat_id msg s =
     (let last_sent = (case last_error_time_by_chat s chat_id of None \<Rightarrow> 0 | Some t \<Rightarrow> t) in
      if now - last_sent \<ge> ERROR_DEBOUNCE_SECONDS then
        (if delivers then
           (s\<lparr>last_error_time_by_chat := (last_error_time_by_chat s)(chat_id \<mapsto> now)\<rparr>,
            [Sent chat_id msg])
         else (s, [SendFailed chat_id msg]))
      else (s, []))"

text \<open>\<^verbatim>\<open>bot.send_message\<close> inside \<^verbatim>\<open>try\<close>/\<^verbatim>\<open>except Exception\<close>: a failure is logged only.\<close>

definition send_message :: "bool \<Rightarrow> int \<Rightarrow> message \<Rightarrow> effect" where
  "send_message delivers chat_id msg = (if delivers then Sent chat_id msg else SendFailed chat_id msg)"

text \<open>Lines 544 to 553: the start of the turn, from the payload or from the clock. A 304
  answer and a payload without the field give the clock; so does the number 0.\<close>

definition turn_start_time :: "tick_env \<Rightarrow> fetched \<Rightarrow> py_exc + datetime" where
  "turn_start_time e data =
     (let current_turn_start_ms =
            (case data of Data (JObject p) \<Rightarrow> currentTurnStartTime p | _ \<Rightarrow> None)
      in case current_turn_start_ms of
           None \<Rightarrow> Inr (now_start e)
         | Some ms \<Rightarrow>
             if ms = 0 then Inr (now_start e)
             else (case fromtimestamp e ms of
                     ConvOk t \<Rightarrow> Inr t
                   | ConvValueError \<Rightarrow> Inr (now_start e)
                   | ConvRaises x \<Rightarrow> Inl x))"

text \<open>\<^verbatim>\<open>human_civs\<close> (lines 339 to 340 and 568 to 569) and the names kept of them
  (\<^verbatim>\<open>[n for n in human_civs if n]\<close>).\<close>

definition human_civs :: "fetched \<Rightarrow> string option list" where
  "human_civs data =
     (case data of
        Data (JObject p) \<Rightarrow>
          map civName (filter (\<lambda>c. playerType c = Some ''Human'') (civilizations p))
      | _ \<Rightarrow> [])"

definition named :: "string option list \<Rightarrow> string list" where
  "named ns = List.map_filter truthy ns"

definition fresh_reminder_state :: "stamp \<Rightarrow> stamp \<Rightarrow> reminder_state" where
  "fresh_reminder_state changed reminded =
     \<lparr>last_turn_change_time = changed, next_reminder_index = Some 0,
      last_reminded_time = reminded\<rparr>"

text \<open>Lines 556 to 579: the first observation.\<close>

definition first_observation ::
  "tick_env \<Rightarrow> fetched \<Rightarrow> string \<Rightarrow> datetime \<Rightarrow> bot_state \<Rightarrow> bot_state \<times> effect list" where
  "first_observation e data current_norm t s =
     (let s1 = s\<lparr>LAST_TURN_PLAYER := Some current_norm,
                 PLAYER_NOTIFICATION_STATE :=
                   (PLAYER_NOTIFICATION_STATE s)
                     (current_norm \<mapsto> fresh_reminder_state (IsoStr t) (IsoStr t))\<rparr>;
          s2 = (if human_civs data \<noteq> []
                then s1\<lparr>AVAILABLE_NATIONS := named (human_civs data)\<rparr> else s1)
      in save_state (write_ok e) s2)"

text \<open>Lines 581 to 603: the turn has changed.\<close>

definition turn_changed ::
  "tick_env \<Rightarrow> string \<Rightarrow> string \<Rightarrow> datetime \<Rightarrow> bot_state \<Rightarrow> bot_state \<times> effect list" where
  "turn_changed e raw_name current_norm t s =
     (let s1 = s\<lparr>LAST_TURN_PLAYER := Some current_norm\<rparr>;
          text = (case truthy (map_of (PLAYER_LOGINS s1) current_norm) of
                    Some player_login \<Rightarrow> NotifyMainPing raw_name player_login
                  | None \<Rightarrow> NotifyMainNoPing raw_name);
          fx = (case truthy_chat (MAIN_CHAT_ID s1) of
                  None \<Rightarrow> []
                | Some chat \<Rightarrow>
                    if NOTIFY_PAUSED s1 then [] else [send_message (deliver_ok e) chat text]);
          s2 = s1\<lparr>PLAYER_NOTIFICATION_STATE :=
                    (PLAYER_NOTIFICATION_STATE s1)
                      (current_norm \<mapsto> fresh_reminder_state (IsoStr t) (IsoStr t))\<rparr>;
          r = save_state (write_ok e) s2
      in (fst r, fx @ snd r))"

text \<open>Lines 606 to 614: the time of the last reminder, and the reminder state with the
  value repaired where it was not a string.\<close>

definition read_last_reminded ::
  "tick_env \<Rightarrow> reminder_state \<Rightarrow> py_exc + datetime \<times> reminder_state" where
  "read_last_reminded e st =
     (case last_reminded_time st of
        IsoStr t \<Rightarrow> Inr (t, st)
      | BadStr v \<Rightarrow> Inl ValueError
      | Missing \<Rightarrow> Inr (now_repair e, st\<lparr>last_reminded_time := IsoStr (now_repair e)\<rparr>)
      | NotStr \<Rightarrow> Inr (now_repair e, st\<lparr>last_reminded_time := IsoStr (now_repair e)\<rparr>))"

text \<open>Lines 605 to 640: the reminder scheduler.\<close>

definition check_reminder ::
  "tick_env \<Rightarrow> string \<Rightarrow> bot_state \<Rightarrow> py_exc option \<times> bot_state \<times> effect list" where
  "check_reminder e current_norm s =
     (case PLAYER_NOTIFICATION_STATE s current_norm of
        None \<Rightarrow> (None, s, [])
      | Some st \<Rightarrow>
         (case truthy_chat (MAIN_CHAT_ID s) of
            None \<Rightarrow> (None, s, [])
          | Some chat \<Rightarrow>
             if NOTIFY_PAUSED s then (None, s, [])
             else
              (case read_last_reminded e st of
                 Inl x \<Rightarrow> (Some x, s, [])
               | Inr (last_reminded, st1) \<Rightarrow>
                  (let s1 = s\<lparr>PLAYER_NOTIFICATION_STATE :=
                               (PLAYER_NOTIFICATION_STATE s)(current_norm \<mapsto> st1)\<rparr>;
                       idx = (case next_reminder_index st1 of None \<Rightarrow> 0 | Some i \<Rightarrow> i)
                   in if idx < length REMINDER_SCHEDULE then
                        (let target = last_reminded + REMINDER_SCHEDULE ! idx in
                         if now_check e \<ge> target then
                           (let msg = (case truthy (map_of (PLAYER_LOGINS s1) current_norm) of
                                         Some login \<Rightarrow> ReminderPing login (REMINDER_SCHEDULE ! idx)
                                       | None \<Rightarrow>
                                           ReminderNoPing (get_raw_nation_name s1 current_norm)
                                             (REMINDER_SCHEDULE ! idx));
                                st2 = st1\<lparr>last_reminded_time := IsoStr (now_sent e),
                                           next_reminder_index := Some (idx + 1)\<rparr>;
                                s2 = s1\<lparr>PLAYER_NOTIFICATION_STATE :=
                                           (PLAYER_NOTIFICATION_STATE s1)(current_norm \<mapsto> st2)\<rparr>;
                                r = save_state (write_ok e) s2
                            in (None, fst r, send_message (deliver_ok e) chat msg # snd r))
                         else (None, s1, []))
                      else (None, s1, [])))))"

text \<open>Lines 530 to 539: the active player of this tick, if any.\<close>

definition current_player_raw :: "fetched \<Rightarrow> bot_state \<Rightarrow> string option" where
  "current_player_raw data s =
     truthy (case data of
               NotModified \<Rightarrow> LAST_TURN_PLAYER s
             | Data (JObject p) \<Rightarrow> currentPlayer p
             | Data _ \<Rightarrow> None)"

text \<open>\<^verbatim>\<open>monitor_game_state\<close> (lines 514 to 640). The first component of the result is the
  exception that leaves the tick, if one does.\<close>

definition monitor_game_state ::
  "tick_env \<Rightarrow> bot_state \<Rightarrow> py_exc option \<times> bot_state \<times> effect list" where
  "monitor_game_state e s =
     (case truthy (CURRENT_GAME_URL s) of
        None \<Rightarrow> (None, s, [])
      | Some url \<Rightarrow>
         (case fetch_game_json (response e) url s of
            (Inl x, s1, fx) \<Rightarrow>
              (case truthy_chat (MAIN_CHAT_ID s1) of
                 None \<Rightarrow> (None, s1, fx)
               | Some chat \<Rightarrow>
                   (let r = send_debounced_error (time_time e) (deliver_ok e) chat
                              ErrorServerDown s1
                    in (None, fst r, fx @ snd r)))
          | (Inr data, s1, fx) \<Rightarrow>
              (case current_player_raw data s1 of
                 None \<Rightarrow> (None, s1, fx)
               | Some raw \<Rightarrow>
                  (let current_norm = upper raw in
                   case turn_start_time e data of
                     Inl x \<Rightarrow> (Some x, s1, fx)
                   | Inr t \<Rightarrow>
                      (case LAST_TURN_PLAYER s1 of
                         None \<Rightarrow>
                           (let r = first_observation e data current_norm t s1
                            in (None, fst r, fx @ snd r))
                       | Some last_player \<Rightarrow>
                           if current_norm \<noteq> last_player then
                             (let r = turn_changed e raw current_norm t s1
                              in (None, fst r, fx @ snd r))
                           else
                             (let r = check_reminder e current_norm s1
                              in (fst r, fst (snd r), fx @ snd (snd r))))))))"

section \<open>Commands\<close>

text \<open>What the world does during one command: the chat the update comes from, the
  arguments, the answer to the HTTP request, whether the reply is delivered, whether the
  file can be written, and the two readings of \<^verbatim>\<open>datetime.now()\<close> at lines 462 and 464.\<close>

record cmd_env =
  effective_chat :: "int option"
  args :: "string list"
  base_url :: string
  cmd_response :: http_response
  reply_ok :: bool
  cmd_write_ok :: bool
  now_changed :: datetime
  now_reminded :: datetime



text \<open>\<^verbatim>\<open>await update.message.reply_text(...)\<close>: the reply, and the exception when the
  transport fails.\<close>

definition reply :: "bool \<Rightarrow> message \<Rightarrow> py_exc option \<times> effect list" where
  "reply ok msg = (if ok then (None, [Reply msg]) else (Some TransportError, [ReplyFailed msg]))"


text \<open>\<^verbatim>\<open>pause_notifications\<close> (lines 442 to 467). The reminder state is written before the
  reply; a reply that fails leaves the handler before \<^verbatim>\<open>save_state\<close>.\<close>

definition pause_notifications ::
  "cmd_env \<Rightarrow> bot_state \<Rightarrow> py_exc option \<times> bot_state \<times> effect list" where
  "pause_notifications c s =
     (let NOTIFY_PAUSED_BEFORE = NOTIFY_PAUSED s;
          s1 = s\<lparr>NOTIFY_PAUSED := \<not> NOTIFY_PAUSED s\<rparr>;
          rearm = (case truthy (LAST_TURN_PLAYER s1) of
                     None \<Rightarrow> None
                   | Some p \<Rightarrow> if NOTIFY_PAUSED_BEFORE then Some p else None);
          msg = (if NOTIFY_PAUSED s1 then PauseOn
                 else case rearm of
                        None \<Rightarrow> PauseOff
                      | Some p \<Rightarrow>
                          (case truthy (map_of (PLAYER_LOGINS s1) p) of
                             Some login \<Rightarrow> PauseOffPing login (get_raw_nation_name s1 p)
                           | None \<Rightarrow> PauseOffNoPing (get_raw_nation_name s1 p)));
          s2 = (if NOTIFY_PAUSED s1 then s1
                else case rearm of
                       None \<Rightarrow> s1
                     | Some p \<Rightarrow>
                         s1\<lparr>PLAYER_NOTIFICATION_STATE :=
                              (PLAYER_NOTIFICATION_STATE s1)
                                (p \<mapsto> fresh_reminder_state (IsoStr (now_changed c))
                                         (IsoStr (now_reminded c)))\<rparr>);
          r = reply (reply_ok c) msg
      in case fst r of
           Some x \<Rightarrow> (Some x, s2, snd r)
         | None \<Rightarrow> (None, fst (save_state (cmd_write_ok c) s2),
                     snd r @ snd (save_state (cmd_write_ok c) s2)))"



section \<open>Runs of ticks and what they send\<close>

text \<open>The job queue calls the tick again and again; a tick that raises is logged by the
  queue and the next one runs on the state the failed one left. A run returns the final
  state and, for every tick, its environment and its effects.\<close>

fun run_ticks :: "tick_env list \<Rightarrow> bot_state \<Rightarrow> bot_state \<times> (tick_env \<times> effect list) list" where
  "run_ticks [] s = (s, [])"
| "run_ticks (e # es) s =
     (fst (run_ticks es (fst (snd (monitor_game_state e s)))),
      (e, snd (snd (monitor_game_state e s)))
        # snd (run_ticks es (fst (snd (monitor_game_state e s)))))"

text \<open>The messages delivered to the chat, and the messages handed to the transport
  (delivered or not).\<close>

definition notifications :: "effect list \<Rightarrow> (int \<times> message) list" where
  "notifications fx = List.map_filter (\<lambda>f. case f of Sent c m \<Rightarrow> Some (c, m) | _ \<Rightarrow> None) fx"

definition attempts :: "effect list \<Rightarrow> (int \<times> message) list" where
  "attempts fx =
     List.map_filter
       (\<lambda>f. case f of Sent c m \<Rightarrow> Some (c, m) | SendFailed c m \<Rightarrow> Some (c, m) | _ \<Rightarrow> None) fx"


text \<open>A reminder handed to the transport carries the delay of its schedule entry.\<close>

definition reminder_delay :: "effect \<Rightarrow> timedelta option" where
  "reminder_delay f =
     (case f of
        Sent c (ReminderPing l d) \<Rightarrow> Some d
      | Sent c (ReminderNoPing n d) \<Rightarrow> Some d
      | SendFailed c (ReminderPing l d) \<Rightarrow> Some d
      | SendFailed c (ReminderNoPing n d) \<Rightarrow> Some d
      | _ \<Rightarrow> None)"

text \<open>The reminders of a run: the clock reading of line 619 in the tick that dispatched
  the reminder, and the delay of the schedule entry.\<close>

definition dispatches :: "(tick_env \<times> effect list) list \<Rightarrow> (datetime \<times> timedelta) list" where
  "dispatches trace =
     concat (map (\<lambda>(e, fx). map (\<lambda>d. (now_check e, d)) (List.map_filter reminder_delay fx)) trace)"

text \<open>The times (\<^verbatim>\<open>time.time()\<close>) of the ticks of a run that delivered an error message to
  a chat.\<close>

definition error_times :: "int \<Rightarrow> (tick_env \<times> effect list) list \<Rightarrow> real list" where
  "error_times chat trace =
     map (\<lambda>(e, fx). time_time e) (filter (\<lambda>(e, fx). Sent chat ErrorServerDown \<in> set fx) trace)"

definition last_error :: "bot_state \<Rightarrow> int \<Rightarrow> real" where
  "last_error s chat = (case last_error_time_by_chat s chat of None \<Rightarrow> 0 | Some t \<Rightarrow> t)"

text \<open>Every time of the list is at least one debounce window after the one before it,
  the first after the given time.\<close>

fun spaced :: "real \<Rightarrow> real list \<Rightarrow> bool" where
  "spaced l [] = True"
| "spaced l (t # ts) = (t - l \<ge> ERROR_DEBOUNCE_SECONDS \<and> spaced t ts)"

text \<open>The reminder scheduler in the words of the specification (section 4.3): on each
  tick compute \<open>due = lastRemindedAt + schedule[nextReminderIndex]\<close>; if \<open>now \<ge> due\<close> and the
  index is inside the schedule, dispatch a reminder, set \<open>lastRemindedAt\<close> to now and
  increment the index. A tick is the pair of its clock readings at the comparison and
  at the update.\<close>

fun scheduler ::
  "(datetime \<times> datetime) list \<Rightarrow> nat \<Rightarrow> datetime \<Rightarrow> (datetime \<times> timedelta) list" where
  "scheduler [] idx lastRemindedAt = []"
| "scheduler ((now, recorded) # ticks) idx lastRemindedAt =
     (if idx < length REMINDER_SCHEDULE \<and> now \<ge> lastRemindedAt + REMINDER_SCHEDULE ! idx
      then (now, REMINDER_SCHEDULE ! idx) # scheduler ticks (idx + 1) recorded
      else scheduler ticks idx lastRemindedAt)"

text \<open>The dispatch times in the words of the section of testable properties:
  \<open>turnStartedAt + schedule[i]\<close> for each index.\<close>

definition claimed_dispatch_times :: "datetime \<Rightarrow> datetime list" where
  "claimed_dispatch_times turnStartedAt = map (\<lambda>d. turnStartedAt + d) REMINDER_SCHEDULE"

text \<open>A state in which it is the turn of \<open>p\<close>, the game and the chat are set, notifications
  are not paused, and the reminder state of \<open>p\<close> has the index \<open>idx\<close> and the last reminder
  time \<open>T\<close>.\<close>

definition armed :: "string \<Rightarrow> nat \<Rightarrow> datetime \<Rightarrow> bot_state \<Rightarrow> bool" where
  "armed p idx T s =
     (truthy (CURRENT_GAME_URL s) \<noteq> None \<and> LAST_TURN_PLAYER s = Some p \<and> p \<noteq> [] \<and>
      upper p = p \<and> truthy_chat (MAIN_CHAT_ID s) \<noteq> None \<and> \<not> NOTIFY_PAUSED s \<and>
      (case PLAYER_NOTIFICATION_STATE s p of
         None \<Rightarrow> False
       | Some st \<Rightarrow>
           last_reminded_time st = IsoStr T \<and>
           (case next_reminder_index st of None \<Rightarrow> 0 | Some i \<Rightarrow> i) = idx))"

text \<open>A tick that compares players and sees \<open>p\<close> as the active one (a 304 answer, or a
  payload whose current player normalises to \<open>p\<close> and whose turn start converts), and a
  tick that ends before it compares players (the fetch fails, the payload has no current
  player, or the conversion of the turn start raises an exception that is not caught).
  Every other tick sees another player than \<open>p\<close>.\<close>

definition steady :: "string \<Rightarrow> tick_env \<Rightarrow> bool" where
  "steady p e =
     (case response e of
        Resp304 \<Rightarrow> True
      | RespOk etag (Some (JObject pl)) \<Rightarrow>
          (case truthy (currentPlayer pl) of
             None \<Rightarrow> False
           | Some raw \<Rightarrow>
               upper raw = p \<and>
               (case turn_start_time e (Data (JObject pl)) of Inl x \<Rightarrow> False | Inr t \<Rightarrow> True))
      | _ \<Rightarrow> False)"

definition quiet :: "tick_env \<Rightarrow> bool" where
  "quiet e =
     (case response e of
        Resp304 \<Rightarrow> False
      | RespOk etag (Some (JObject pl)) \<Rightarrow>
          (case truthy (currentPlayer pl) of
             None \<Rightarrow> True
           | Some raw \<Rightarrow>
               (case turn_start_time e (Data (JObject pl)) of Inl x \<Rightarrow> True | Inr t \<Rightarrow> False))
      | _ \<Rightarrow> True)"

section \<open>Example states and ticks\<close>

text \<open>A tick in which every clock reads \<open>t\<close>, the transport delivers and the file can be
  written.\<close>

definition tick_at :: "http_response \<Rightarrow> datetime \<Rightarrow> tick_env" where
  "tick_at r t =
     \<lparr>response = r, fromtimestamp = (\<lambda>ms. ConvOk (ms * 1000)), now_start = t, now_repair = t,
      now_check = t, now_sent = t, time_time = real_of_int t / 1000000, deliver_ok = True,
      write_ok = True\<rparr>"

definition rome_turn :: bot_state where
  "rome_turn =
     (initial_state ''en'' 60 NoFile)
       \<lparr>GAME_ID := Some ''g1'', CURRENT_GAME_URL := Some ''https://uncivserver.xyz/jsons/g1'',
        LAST_TURN_PLAYER := Some ''ROME'', MAIN_CHAT_ID := Some 7,
        AVAILABLE_NATIONS := [''Rome'', ''Egypt''], PLAYER_LOGINS := [(''ROME'', ''@alice'')],
        PLAYER_NOTIFICATION_STATE := [''ROME'' \<mapsto> fresh_reminder_state (IsoStr 0) (IsoStr 0)]\<rparr>"

definition paused_game :: bot_state where
  "paused_game = rome_turn\<lparr>NOTIFY_PAUSED := True\<rparr>"

text \<open>A command in which the reply is delivered, the file can be written and both clock
  readings are \<open>t\<close>.\<close>

definition command_at :: "string list \<Rightarrow> http_response \<Rightarrow> datetime \<Rightarrow> cmd_env" where
  "command_at as r t =
     \<lparr>effective_chat = Some 7, args = as, base_url = ''https://uncivserver.xyz/jsons/'',
      cmd_response = r, reply_ok = True, cmd_write_ok = True, now_changed = t,
      now_reminded = t\<rparr>"

text \<open>A payload in which it is the turn of Egypt, with a turn start of 7200000 ms and the
  human players Egypt and Greece, and the tick that fetches it at a given time.\<close>

definition egypt_payload :: payload where
  "egypt_payload =
     \<lparr>currentPlayer = Some ''Egypt'', currentTurnStartTime = Some 7200000,
      civilizations = [\<lparr>civName = Some ''Egypt'', playerType = Some ''Human''\<rparr>,
                       \<lparr>civName = Some ''Greece'', playerType = Some ''Human''\<rparr>,
                       \<lparr>civName = Some ''Barbarians'', playerType = Some ''AI''\<rparr>]\<rparr>"

definition egypt_tick :: "datetime \<Rightarrow> tick_env" where
  "egypt_tick t = tick_at (RespOk None (Some (JObject egypt_payload))) t"


text \<open>A payload in which it is the turn of Egypt and the turn start is \<open>10^30\<close> ms, and a
  tick that fetches it; \<^verbatim>\<open>datetime.fromtimestamp\<close> raises OverflowError on that number.\<close>

definition overflow_payload :: payload where
  "overflow_payload = egypt_payload\<lparr>currentTurnStartTime := Some 1000000000000000000000000000000\<rparr>"

definition overflow_tick :: "datetime \<Rightarrow> tick_env" where
  "overflow_tick t =
     (tick_at (RespOk None (Some (JObject overflow_payload))) t)
       \<lparr>fromtimestamp :=
          (\<lambda>ms. if ms = 1000000000000000000000000000000 then ConvRaises OverflowError
                else ConvOk (ms * 1000))\<rparr>"

section \<open>Properties\<close>

subsection \<open>Frames of the building blocks\<close>

lemma fetch_frame:
  "fetch_game_json r url s = (res, s1, fx) \<Longrightarrow>
     s1 = s\<lparr>ETAG_CACHE := ETAG_CACHE s1\<rparr> \<and> fx = [HttpGet url (truthy (ETAG_CACHE s url))]"
  by (auto simp: fetch_game_json_def Let_def split: http_response.splits option.splits)

text \<open>The tick normalises a name that it has found to be non-empty: \<^verbatim>\<open>normalize\<close> is then
  \<^verbatim>\<open>str.upper\<close>, which is what the model of the tick applies.\<close>

lemma normalize_truthy: "truthy x = Some raw \<Longrightarrow> normalize x = Some (upper raw)"
  by (simp add: normalize_def)

lemma normalize_falsy: "truthy x = None \<Longrightarrow> normalize x = x"
  by (simp add: normalize_def)

subsection \<open>The snapshot store\<close>

text \<open>
  C5, as amended. After \<^verbatim>\<open>save_state\<close> has written the file and the process has restarted
  and called \<^verbatim>\<open>load_state\<close>, the game id, the resource URL, the chat, the subscriptions,
  the last active key, the language and the poll interval are equal to their values at
  save time. The pause flag, the roster and the reminder states are not part of the
  snapshot: after the restart they have their initial values (not paused, no roster, no
  reminder state).
\<close>

theorem snapshot_round_trip:
  "GAME_ID (restart lang interval (fst (save_state True s))) = GAME_ID s \<and>
   CURRENT_GAME_URL (restart lang interval (fst (save_state True s))) = CURRENT_GAME_URL s \<and>
   MAIN_CHAT_ID (restart lang interval (fst (save_state True s))) = MAIN_CHAT_ID s \<and>
   PLAYER_LOGINS (restart lang interval (fst (save_state True s))) = PLAYER_LOGINS s \<and>
   LAST_TURN_PLAYER (restart lang interval (fst (save_state True s))) = LAST_TURN_PLAYER s \<and>
   BOT_LANGUAGE (restart lang interval (fst (save_state True s))) = BOT_LANGUAGE s \<and>
   MONITOR_INTERVAL_SECONDS_DEFAULT (restart lang interval (fst (save_state True s))) =
     MONITOR_INTERVAL_SECONDS_DEFAULT s \<and>
   NOTIFY_PAUSED (restart lang interval (fst (save_state True s))) = False \<and>
   AVAILABLE_NATIONS (restart lang interval (fst (save_state True s))) = [] \<and>
   PLAYER_NOTIFICATION_STATE (restart lang interval (fst (save_state True s))) = Map.empty"
  by (simp add: restart_def save_state_def load_state_def initial_state_def Let_def)

text \<open>
  C5 as stated fails: a paused game with a roster and a reminder state comes back from
  the restart unpaused, without roster and without reminder state.
\<close>

theorem restart_forgets_pause_roster_reminders:
  "NOTIFY_PAUSED (restart ''en'' 60 (fst (save_state True paused_game)))
     \<noteq> NOTIFY_PAUSED paused_game \<and>
   AVAILABLE_NATIONS (restart ''en'' 60 (fst (save_state True paused_game)))
     \<noteq> AVAILABLE_NATIONS paused_game \<and>
   PLAYER_NOTIFICATION_STATE (restart ''en'' 60 (fst (save_state True paused_game))) ''ROME''
     \<noteq> PLAYER_NOTIFICATION_STATE paused_game ''ROME''"
  by (simp add: restart_def save_state_def load_state_def initial_state_def paused_game_def
      rome_turn_def Let_def)

subsection \<open>A tick whose fetch fails\<close>

text \<open>
  C2. On a tick whose fetch raises (a timeout, a transport error, an error status or a
  body that does not parse), the tick returns normally, the last active key, the
  reminder states, the roster and the state file are what they were, and the only
  message handed to the chat transport, if any, is one error notification.
\<close>

theorem transient_failure_keeps_state:
  assumes url: "truthy (CURRENT_GAME_URL s) = Some url"
    and fail: "fst (fetch_game_json (response e) url s) = Inl x"
  shows "fst (monitor_game_state e s) = None \<and>
         LAST_TURN_PLAYER (fst (snd (monitor_game_state e s))) = LAST_TURN_PLAYER s \<and>
         PLAYER_NOTIFICATION_STATE (fst (snd (monitor_game_state e s)))
           = PLAYER_NOTIFICATION_STATE s \<and>
         AVAILABLE_NATIONS (fst (snd (monitor_game_state e s))) = AVAILABLE_NATIONS s \<and>
         STATE_FILE (fst (snd (monitor_game_state e s))) = STATE_FILE s \<and>
         (attempts (snd (snd (monitor_game_state e s))) = [] \<or>
          (\<exists>chat. attempts (snd (snd (monitor_game_state e s))) = [(chat, ErrorServerDown)]))"
proof -
  obtain s1 fx where f: "fetch_game_json (response e) url s = (Inl x, s1, fx)"
    using fail by (cases "fetch_game_json (response e) url s") auto
  from fetch_frame[OF f] have s1: "s1 = s\<lparr>ETAG_CACHE := ETAG_CACHE s1\<rparr>"
    and fx: "fx = [HttpGet url (truthy (ETAG_CACHE s url))]" by simp_all
  have a: "LAST_TURN_PLAYER s1 = LAST_TURN_PLAYER s"
    "PLAYER_NOTIFICATION_STATE s1 = PLAYER_NOTIFICATION_STATE s"
    "AVAILABLE_NATIONS s1 = AVAILABLE_NATIONS s" "STATE_FILE s1 = STATE_FILE s"
    by (subst s1, simp)+
  show ?thesis
    using url f a fx
    by (auto simp: monitor_game_state_def send_debounced_error_def Let_def attempts_def
        List.map_filter_simps split: option.splits)
qed

lemma upper_ROME: "upper ''ROME'' = ''ROME''"
  by (simp add: upper_def upper_char_def)

theorem transient_failure_keeps_state_witness:
  "truthy (CURRENT_GAME_URL rome_turn) = Some ''https://uncivserver.xyz/jsons/g1'' \<and>
   fst (fetch_game_json (response (tick_at RespTimeout (minutes 5)))
          ''https://uncivserver.xyz/jsons/g1'' rome_turn) = Inl TimeoutError \<and>
   fst (monitor_game_state (tick_at RespTimeout (minutes 5)) rome_turn) = None \<and>
   LAST_TURN_PLAYER (fst (snd (monitor_game_state (tick_at RespTimeout (minutes 5)) rome_turn)))
     = Some ''ROME''"
proof -
  have u: "truthy (CURRENT_GAME_URL rome_turn) = Some ''https://uncivserver.xyz/jsons/g1''"
    by (simp add: rome_turn_def initial_state_def truthy_def)
  have f: "fst (fetch_game_json (response (tick_at RespTimeout (minutes 5)))
          ''https://uncivserver.xyz/jsons/g1'' rome_turn) = Inl TimeoutError"
    by (simp add: fetch_game_json_def tick_at_def)
  have l: "LAST_TURN_PLAYER rome_turn = Some ''ROME''"
    by (simp add: rome_turn_def initial_state_def)
  show ?thesis
    using transient_failure_keeps_state[OF u f] u f l by simp
qed

subsection \<open>The scheduler on a turn that stays\<close>

lemma save_state_no_reminder:
  "List.map_filter reminder_delay (snd (save_state b s)) = []"
  by (simp add: save_state_def Let_def List.map_filter_simps reminder_delay_def)

lemma reminder_delay_send:
  "reminder_delay (send_message b c (ReminderPing l d)) = Some d"
  "reminder_delay (send_message b c (ReminderNoPing n d)) = Some d"
  by (simp_all add: send_message_def reminder_delay_def)

lemma reminder_delay_other:
  "reminder_delay (HttpGet u h) = None"
  "reminder_delay (Wrote p) = None"
  "reminder_delay (WriteFailed p) = None"
  "reminder_delay (send_message b c (NotifyMainPing n l)) = None"
  "reminder_delay (send_message b c (NotifyMainNoPing n)) = None"
  "reminder_delay (send_message b c ErrorServerDown) = None"
  "reminder_delay (Sent c ErrorServerDown) = None"
  "reminder_delay (SendFailed c ErrorServerDown) = None"
  by (simp_all add: send_message_def reminder_delay_def)

lemma map_filter_append: "List.map_filter f (xs @ ys) = List.map_filter f xs @ List.map_filter f ys"
  by (simp add: List.map_filter_def)

lemma check_reminder_armed:
  assumes "armed p idx T s"
  shows "fst (check_reminder e p s) = None \<and>
         (if idx < length REMINDER_SCHEDULE \<and> now_check e \<ge> T + REMINDER_SCHEDULE ! idx
          then armed p (idx + 1) (now_sent e) (fst (snd (check_reminder e p s))) \<and>
               List.map_filter reminder_delay (snd (snd (check_reminder e p s))) = [REMINDER_SCHEDULE ! idx]
          else armed p idx T (fst (snd (check_reminder e p s))) \<and>
               List.map_filter reminder_delay (snd (snd (check_reminder e p s))) = [])"
proof -
  from assms obtain st chat where st: "PLAYER_NOTIFICATION_STATE s p = Some st"
    and lr: "last_reminded_time st = IsoStr T"
    and ix: "(case next_reminder_index st of None \<Rightarrow> 0 | Some i \<Rightarrow> i) = idx"
    and chat: "truthy_chat (MAIN_CHAT_ID s) = Some chat" and np: "\<not> NOTIFY_PAUSED s"
    by (auto simp: armed_def split: option.splits)
  have rl: "read_last_reminded e st = Inr (T, st)"
    using lr by (simp add: read_last_reminded_def)
  show ?thesis
    using assms st chat np rl ix
    by (auto simp: check_reminder_def Let_def armed_def save_state_def List.map_filter_simps
        reminder_delay_send reminder_delay_other split: option.splits)
qed

lemma armed_etag: "armed p idx T (s\<lparr>ETAG_CACHE := c\<rparr>) = armed p idx T s"
  by (simp add: armed_def)

lemma dispatches_single:
  "dispatches [(e, fx)] = map (\<lambda>d. (now_check e, d)) (List.map_filter reminder_delay fx)"
  by (simp add: dispatches_def)

lemma dispatches_Cons: "dispatches (x # xs) = dispatches [x] @ dispatches xs"
  by (simp add: dispatches_def)

lemma fetch_304: "fetch_game_json Resp304 url s = (Inr NotModified, s, [HttpGet url (truthy (ETAG_CACHE s url))])"
  by (simp add: fetch_game_json_def)

lemma fetch_ok:
  "fetch_game_json (RespOk etag (Some d)) url s =
     (Inr (Data d),
      (case truthy etag of None \<Rightarrow> s | Some t \<Rightarrow> s\<lparr>ETAG_CACHE := (ETAG_CACHE s)(url \<mapsto> t)\<rparr>),
      [HttpGet url (truthy (ETAG_CACHE s url))])"
  by (simp add: fetch_game_json_def)

lemma armed_after_fetch:
  "armed p idx T (case x of None \<Rightarrow> s | Some t \<Rightarrow> s\<lparr>ETAG_CACHE := f t\<rparr>) = armed p idx T s"
  by (simp add: armed_etag split: option.splits)

lemma truthy_Some_iff: "truthy x = Some v \<longleftrightarrow> x = Some v \<and> v \<noteq> []"
  by (auto simp: truthy_def split: option.splits)

lemma monitor_unchanged:
  assumes "truthy (CURRENT_GAME_URL s) = Some url"
    and "fetch_game_json (response e) url s = (Inr data, s1, fx)"
    and "current_player_raw data s1 = Some raw"
    and "turn_start_time e data = Inr t"
    and "LAST_TURN_PLAYER s1 = Some (upper raw)"
  shows "monitor_game_state e s =
           (fst (check_reminder e (upper raw) s1), fst (snd (check_reminder e (upper raw) s1)),
            fx @ snd (snd (check_reminder e (upper raw) s1)))"
  using assms by (simp add: monitor_game_state_def Let_def)

lemma monitor_changed:
  assumes "truthy (CURRENT_GAME_URL s) = Some url"
    and "fetch_game_json (response e) url s = (Inr data, s1, fx)"
    and "current_player_raw data s1 = Some raw"
    and "turn_start_time e data = Inr t"
    and "LAST_TURN_PLAYER s1 = Some prev" and "upper raw \<noteq> prev"
  shows "monitor_game_state e s =
           (None, fst (turn_changed e raw (upper raw) t s1),
            fx @ snd (turn_changed e raw (upper raw) t s1))"
  using assms by (simp add: monitor_game_state_def Let_def)

lemma monitor_first:
  assumes "truthy (CURRENT_GAME_URL s) = Some url"
    and "fetch_game_json (response e) url s = (Inr data, s1, fx)"
    and "current_player_raw data s1 = Some raw"
    and "turn_start_time e data = Inr t"
    and "LAST_TURN_PLAYER s1 = None"
  shows "monitor_game_state e s =
           (None, fst (first_observation e data (upper raw) t s1),
            fx @ snd (first_observation e data (upper raw) t s1))"
  using assms by (simp add: monitor_game_state_def Let_def)

lemma monitor_no_player:
  assumes "truthy (CURRENT_GAME_URL s) = Some url"
    and "fetch_game_json (response e) url s = (Inr data, s1, fx)"
    and "current_player_raw data s1 = None"
  shows "monitor_game_state e s = (None, s1, fx)"
  using assms by (simp add: monitor_game_state_def Let_def)

lemma steady_step:
  assumes a: "armed p idx T s" and st: "steady p e"
  shows "if idx < length REMINDER_SCHEDULE \<and> now_check e \<ge> T + REMINDER_SCHEDULE ! idx
         then armed p (idx + 1) (now_sent e) (fst (snd (monitor_game_state e s))) \<and>
              dispatches [(e, snd (snd (monitor_game_state e s)))] = [(now_check e, REMINDER_SCHEDULE ! idx)]
         else armed p idx T (fst (snd (monitor_game_state e s))) \<and>
              dispatches [(e, snd (snd (monitor_game_state e s)))] = []"
proof -
  from a obtain url where url: "truthy (CURRENT_GAME_URL s) = Some url"
    and lp: "LAST_TURN_PLAYER s = Some p" and pne: "p \<noteq> []" and up: "upper p = p"
    by (auto simp: armed_def)
  obtain res s1 fx where f: "fetch_game_json (response e) url s = (res, s1, fx)"
    by (cases "fetch_game_json (response e) url s") auto
  from fetch_frame[OF f] have s1: "s1 = s\<lparr>ETAG_CACHE := ETAG_CACHE s1\<rparr>"
    and fx: "fx = [HttpGet url (truthy (ETAG_CACHE s url))]" by simp_all
  have a1: "armed p idx T s1" by (subst s1) (simp add: armed_etag a)
  have lp1: "LAST_TURN_PLAYER s1 = Some p" using a1 by (simp add: armed_def)
  from st f lp1 pne obtain data raw t where res: "res = Inr data"
    and cp: "current_player_raw data s1 = Some raw" and ur: "upper raw = p"
    and ts: "turn_start_time e data = Inr t"
    by (auto simp: steady_def fetch_game_json_def current_player_raw_def truthy_Some_iff up
        turn_start_time_def
        split: http_response.splits option.splits json_data.splits sum.splits)
  have m: "monitor_game_state e s =
        (fst (check_reminder e p s1), fst (snd (check_reminder e p s1)),
         fx @ snd (snd (check_reminder e p s1)))"
    using monitor_unchanged[OF url f[unfolded res] cp ts] lp1 ur by simp
  show ?thesis
    using check_reminder_armed[OF a1, of e]
    by (auto simp: m fx dispatches_single map_filter_append List.map_filter_simps
        reminder_delay_other split: if_splits)
qed

lemma quiet_keeps:
  assumes q: "quiet e"
  shows "CURRENT_GAME_URL (fst (snd (monitor_game_state e s))) = CURRENT_GAME_URL s \<and>
         LAST_TURN_PLAYER (fst (snd (monitor_game_state e s))) = LAST_TURN_PLAYER s \<and>
         MAIN_CHAT_ID (fst (snd (monitor_game_state e s))) = MAIN_CHAT_ID s \<and>
         NOTIFY_PAUSED (fst (snd (monitor_game_state e s))) = NOTIFY_PAUSED s \<and>
         PLAYER_NOTIFICATION_STATE (fst (snd (monitor_game_state e s)))
           = PLAYER_NOTIFICATION_STATE s \<and>
         STATE_FILE (fst (snd (monitor_game_state e s))) = STATE_FILE s \<and>
         List.map_filter reminder_delay (snd (snd (monitor_game_state e s))) = []"
proof (cases "truthy (CURRENT_GAME_URL s)")
  case None
  then show ?thesis by (simp add: monitor_game_state_def List.map_filter_simps)
next
  case (Some url)
  obtain res s1 fx where f: "fetch_game_json (response e) url s = (res, s1, fx)"
    by (cases "fetch_game_json (response e) url s") auto
  from fetch_frame[OF f] have s1: "s1 = s\<lparr>ETAG_CACHE := ETAG_CACHE s1\<rparr>"
    and fx: "fx = [HttpGet url (truthy (ETAG_CACHE s url))]" by simp_all
  have k: "CURRENT_GAME_URL s1 = CURRENT_GAME_URL s" "LAST_TURN_PLAYER s1 = LAST_TURN_PLAYER s"
    "MAIN_CHAT_ID s1 = MAIN_CHAT_ID s" "NOTIFY_PAUSED s1 = NOTIFY_PAUSED s"
    "PLAYER_NOTIFICATION_STATE s1 = PLAYER_NOTIFICATION_STATE s" "STATE_FILE s1 = STATE_FILE s"
    by (subst s1, simp)+
  show ?thesis
  proof (cases res)
    case (Inl x)
    show ?thesis
      using Some f Inl k
      by (auto simp: monitor_game_state_def Let_def send_debounced_error_def fx
          List.map_filter_simps reminder_delay_other split: option.splits)
  next
    case (Inr data)
    from q f Inr consider (none) "current_player_raw data s1 = None"
      | (raises) raw x where "current_player_raw data s1 = Some raw"
          "turn_start_time e data = Inl x"
      by (auto simp: quiet_def fetch_game_json_def current_player_raw_def truthy_def
          split: http_response.splits option.splits json_data.splits sum.splits if_splits)
    then show ?thesis
    proof cases
      case none
      from monitor_no_player[OF Some f[unfolded Inr] none] show ?thesis
        using k by (simp add: fx List.map_filter_simps reminder_delay_other)
    next
      case raises
      have "monitor_game_state e s = (Some x, s1, fx)"
        using Some f Inr raises by (simp add: monitor_game_state_def Let_def)
      then show ?thesis
        using k by (simp add: fx List.map_filter_simps reminder_delay_other)
    qed
  qed
qed

lemma quiet_step:
  assumes a: "armed p idx T s" and q: "quiet e"
  shows "armed p idx T (fst (snd (monitor_game_state e s))) \<and>
         dispatches [(e, snd (snd (monitor_game_state e s)))] = []"
  using a quiet_keeps[OF q, of s] by (simp add: armed_def dispatches_single)

text \<open>The ticks that neither see \<open>p\<close> nor end before the comparison are the ticks that
  see another player.\<close>

lemma other_player_tick:
  assumes "\<not> steady p e" and "\<not> quiet e"
  shows "\<exists>etag pl raw t. response e = RespOk etag (Some (JObject pl)) \<and>
           truthy (currentPlayer pl) = Some raw \<and> upper raw \<noteq> p \<and>
           turn_start_time e (Data (JObject pl)) = Inr t"
  using assms
  by (auto simp: steady_def quiet_def
      split: http_response.splits option.splits json_data.splits sum.splits)

lemma quiet_not_steady: "quiet e \<Longrightarrow> \<not> steady p e"
  by (auto simp: quiet_def steady_def
      split: http_response.splits option.splits json_data.splits sum.splits)

lemma run_dispatches:
  "armed p idx T s \<Longrightarrow> \<forall>e\<in>set es. steady p e \<or> quiet e \<Longrightarrow>
   dispatches (snd (run_ticks es s)) =
     scheduler (map (\<lambda>e. (now_check e, now_sent e)) (filter (steady p) es)) idx T"
proof (induction es arbitrary: s idx T)
  case Nil
  then show ?case by (simp add: dispatches_def)
next
  case (Cons e es)
  show ?case
  proof (cases "steady p e")
    case True
    from steady_step[OF Cons.prems(1) True] Cons.IH Cons.prems(2) True show ?thesis
      by (subst run_ticks.simps, subst snd_conv, subst dispatches_Cons) (auto split: if_splits)
  next
    case False
    with Cons.prems(2) have q: "quiet e" by simp
    from quiet_step[OF Cons.prems(1) q] Cons.IH Cons.prems(2) False show ?thesis
      by (subst run_ticks.simps, subst snd_conv, subst dispatches_Cons) auto
  qed
qed

lemma scheduler_delays:
  "map snd (scheduler ticks idx T) = take (length (scheduler ticks idx T)) (drop idx REMINDER_SCHEDULE)"
proof (induction ticks idx T rule: scheduler.induct)
  case (1 idx T)
  then show ?case by simp
next
  case (2 now recorded ticks idx T)
  show ?case
  proof (cases "idx < length REMINDER_SCHEDULE \<and> now \<ge> T + REMINDER_SCHEDULE ! idx")
    case True
    then have "drop idx REMINDER_SCHEDULE = REMINDER_SCHEDULE ! idx # drop (Suc idx) REMINDER_SCHEDULE"
      by (simp add: Cons_nth_drop_Suc)
    with True 2 show ?thesis by simp
  next
    case False
    with 2 show ?thesis by auto
  qed
qed

subsection \<open>The reminder schedule\<close>

lemma armed_rome_turn: "armed ''ROME'' 0 0 rome_turn"
  by (simp add: armed_def rome_turn_def initial_state_def truthy_def truthy_chat_def upper_ROME
      fresh_reminder_state_def)

lemma steady_304: "steady p (tick_at Resp304 t)"
  by (simp add: steady_def tick_at_def)

lemma tick_at_clock: "now_check (tick_at r t) = t" "now_sent (tick_at r t) = t"
  by (simp_all add: tick_at_def)

text \<open>
  C1, as amended. Take a state in which a game URL and a chat are set, notifications are
  not paused, the last active key is the normalised, non-empty name \<open>p\<close>, and \<open>p\<close> has a
  reminder state with the index \<open>idx\<close> and the last reminder time \<open>T\<close> (what the first
  observation, a change of turn and a resume leave behind, as \<open>first_tick_arms\<close> and
  \<open>changed_tick_arms\<close> show below), and a run of ticks each of
  which either sees \<open>p\<close> as the active player or ends before it compares players (the fetch
  fails, there is no active player, or the conversion of the turn start raises). The
  reminders dispatched over the run are those of the scheduler of the specification:
  reminder \<open>i\<close> goes out at the first tick that sees \<open>p\<close> at or after
  \<open>lastRemindedAt + schedule[i]\<close>, where \<open>lastRemindedAt\<close> is the time recorded at the
  previous reminder (\<open>T\<close>, the start of the turn, for the first one). The delays dispatched
  are consecutive entries of the schedule from \<open>idx\<close> on, in order and once each; after
  the last entry nothing more is dispatched.
\<close>

theorem reminders_follow_schedule:
  assumes "armed p idx T s" and "\<forall>e\<in>set es. steady p e \<or> quiet e"
  shows "dispatches (snd (run_ticks es s)) =
           scheduler (map (\<lambda>e. (now_check e, now_sent e)) (filter (steady p) es)) idx T \<and>
         map snd (dispatches (snd (run_ticks es s))) =
           take (length (dispatches (snd (run_ticks es s)))) (drop idx REMINDER_SCHEDULE)"
  using run_dispatches[OF assms] scheduler_delays by simp

theorem reminders_follow_schedule_witness:
  "armed ''ROME'' 0 0 rome_turn \<and>
   dispatches (snd (run_ticks [tick_at Resp304 (minutes 10), tick_at Resp304 (minutes 30),
                               tick_at Resp304 (minutes 40)] rome_turn))
     = [(minutes 10, minutes 10), (minutes 40, minutes 30)]"
proof -
  have "\<forall>e\<in>set [tick_at Resp304 (minutes 10), tick_at Resp304 (minutes 30),
                  tick_at Resp304 (minutes 40)]. steady ''ROME'' e \<or> quiet e"
    by (simp add: steady_304)
  from reminders_follow_schedule[OF armed_rome_turn this] armed_rome_turn show ?thesis
    by (simp add: steady_304 tick_at_clock REMINDER_SCHEDULE_def minutes_def hours_def)
qed

text \<open>
  C1 as stated fails. The turn of Rome starts at time 0 and the ticks come 10, 30 and 40
  minutes later. The first reminder goes out at 10 minutes; the second goes out at 40
  minutes (30 minutes after the first), not at the tick 30 minutes after the start of the
  turn: the dispatch times are not \<open>turnStartedAt + schedule[i]\<close>.
\<close>

theorem second_reminder_counts_from_first:
  "map fst (dispatches (snd (run_ticks [tick_at Resp304 (minutes 10), tick_at Resp304 (minutes 30),
                                        tick_at Resp304 (minutes 40)] rome_turn)))
     = [minutes 10, minutes 40] \<and>
   map fst (dispatches (snd (run_ticks [tick_at Resp304 (minutes 10), tick_at Resp304 (minutes 30),
                                        tick_at Resp304 (minutes 40)] rome_turn)))
     \<noteq> take 2 (claimed_dispatch_times 0) \<and>
   PLAYER_NOTIFICATION_STATE rome_turn ''ROME''
     = Some (fresh_reminder_state (IsoStr 0) (IsoStr 0))"
proof -
  have "\<forall>e\<in>set [tick_at Resp304 (minutes 10), tick_at Resp304 (minutes 30),
                  tick_at Resp304 (minutes 40)]. steady ''ROME'' e \<or> quiet e"
    by (simp add: steady_304)
  from run_dispatches[OF armed_rome_turn this] show ?thesis
    by (simp add: steady_304 tick_at_clock REMINDER_SCHEDULE_def minutes_def hours_def
        claimed_dispatch_times_def rome_turn_def initial_state_def)
qed

subsection \<open>A missing time of the last reminder\<close>





lemma fetch_keeps:
  "PLAYER_NOTIFICATION_STATE (fst (snd (fetch_game_json r url s))) = PLAYER_NOTIFICATION_STATE s"
  "LAST_TURN_PLAYER (fst (snd (fetch_game_json r url s))) = LAST_TURN_PLAYER s"
  "MAIN_CHAT_ID (fst (snd (fetch_game_json r url s))) = MAIN_CHAT_ID s"
  "NOTIFY_PAUSED (fst (snd (fetch_game_json r url s))) = NOTIFY_PAUSED s"
  "AVAILABLE_NATIONS (fst (snd (fetch_game_json r url s))) = AVAILABLE_NATIONS s"
  "PLAYER_LOGINS (fst (snd (fetch_game_json r url s))) = PLAYER_LOGINS s"
  "STATE_FILE (fst (snd (fetch_game_json r url s))) = STATE_FILE s"
  "last_error_time_by_chat (fst (snd (fetch_game_json r url s))) = last_error_time_by_chat s"
  "CURRENT_GAME_URL (fst (snd (fetch_game_json r url s))) = CURRENT_GAME_URL s"
  "GAME_ID (fst (snd (fetch_game_json r url s))) = GAME_ID s"
  "snd (snd (fetch_game_json r url s)) = [HttpGet url (truthy (ETAG_CACHE s url))]"
  by (simp_all add: fetch_game_json_def Let_def split: http_response.splits option.splits)










subsection \<open>Resuming from a pause\<close>

lemma save_state_keeps:
  "PLAYER_NOTIFICATION_STATE (fst (save_state b s)) = PLAYER_NOTIFICATION_STATE s"
  "LAST_TURN_PLAYER (fst (save_state b s)) = LAST_TURN_PLAYER s"
  "MAIN_CHAT_ID (fst (save_state b s)) = MAIN_CHAT_ID s"
  "NOTIFY_PAUSED (fst (save_state b s)) = NOTIFY_PAUSED s"
  "AVAILABLE_NATIONS (fst (save_state b s)) = AVAILABLE_NATIONS s"
  "PLAYER_LOGINS (fst (save_state b s)) = PLAYER_LOGINS s"
  "last_error_time_by_chat (fst (save_state b s)) = last_error_time_by_chat s"
  "CURRENT_GAME_URL (fst (save_state b s)) = CURRENT_GAME_URL s"
  "GAME_ID (fst (save_state b s)) = GAME_ID s"
  by (simp_all add: save_state_def Let_def)

lemma pause_resume_state:
  assumes "NOTIFY_PAUSED s" and "truthy (LAST_TURN_PLAYER s) = Some p"
  shows "NOTIFY_PAUSED (fst (snd (pause_notifications c s))) = False"
    "PLAYER_NOTIFICATION_STATE (fst (snd (pause_notifications c s))) p =
       Some (fresh_reminder_state (IsoStr (now_changed c)) (IsoStr (now_reminded c)))"
    "LAST_TURN_PLAYER (fst (snd (pause_notifications c s))) = LAST_TURN_PLAYER s"
    "CURRENT_GAME_URL (fst (snd (pause_notifications c s))) = CURRENT_GAME_URL s"
    "MAIN_CHAT_ID (fst (snd (pause_notifications c s))) = MAIN_CHAT_ID s"
  using assms
  by (simp_all add: pause_notifications_def Let_def save_state_keeps reply_def split: option.splits)

text \<open>
  C8. When notifications are paused and a turn holder \<open>p\<close> is known, the pause command
  switches the pause off and puts a fresh reminder state in place for \<open>p\<close>: index 0, the
  start of the turn and the time of the last reminder set to the clock readings of the
  command. From then on the reminders of every run of ticks that see \<open>p\<close> are those of
  the scheduler started at index 0 at the time of the resume.
\<close>

theorem resume_rearms_holder:
  assumes paused: "NOTIFY_PAUSED s" and holder: "truthy (LAST_TURN_PLAYER s) = Some p"
  shows "NOTIFY_PAUSED (fst (snd (pause_notifications c s))) = False \<and>
         PLAYER_NOTIFICATION_STATE (fst (snd (pause_notifications c s))) p =
           Some \<lparr>last_turn_change_time = IsoStr (now_changed c), next_reminder_index = Some 0,
                 last_reminded_time = IsoStr (now_reminded c)\<rparr> \<and>
         (truthy (CURRENT_GAME_URL s) \<noteq> None \<and> truthy_chat (MAIN_CHAT_ID s) \<noteq> None \<and>
          upper p = p \<and> (\<forall>e\<in>set es. steady p e \<or> quiet e) \<longrightarrow>
            dispatches (snd (run_ticks es (fst (snd (pause_notifications c s))))) =
              scheduler (map (\<lambda>e. (now_check e, now_sent e)) (filter (steady p) es)) 0
                (now_reminded c))"
proof -
  note ps = pause_resume_state[OF paused holder, of c]
  have "armed p 0 (now_reminded c) (fst (snd (pause_notifications c s)))"
    if "truthy (CURRENT_GAME_URL s) \<noteq> None" "truthy_chat (MAIN_CHAT_ID s) \<noteq> None" "upper p = p"
    using that holder ps
    by (auto simp: armed_def fresh_reminder_state_def truthy_Some_iff)
  then show ?thesis
    using ps(1,2) run_dispatches[of p 0 "now_reminded c" "fst (snd (pause_notifications c s))" es]
    by (auto simp: fresh_reminder_state_def)
qed

theorem resume_rearms_holder_witness:
  "NOTIFY_PAUSED paused_game \<and> truthy (LAST_TURN_PLAYER paused_game) = Some ''ROME'' \<and>
   NOTIFY_PAUSED (fst (snd (pause_notifications (command_at [] Resp304 (hours 5)) paused_game)))
     = False \<and>
   PLAYER_NOTIFICATION_STATE
     (fst (snd (pause_notifications (command_at [] Resp304 (hours 5)) paused_game))) ''ROME'' =
     Some \<lparr>last_turn_change_time = IsoStr (hours 5), next_reminder_index = Some 0,
           last_reminded_time = IsoStr (hours 5)\<rparr> \<and>
   dispatches (snd (run_ticks [tick_at Resp304 (hours 5 + minutes 5),
                               tick_at Resp304 (hours 5 + minutes 10)]
                      (fst (snd (pause_notifications (command_at [] Resp304 (hours 5))
                                   paused_game)))))
     = [(hours 5 + minutes 10, minutes 10)]"
proof -
  have a: "NOTIFY_PAUSED paused_game" "truthy (LAST_TURN_PLAYER paused_game) = Some ''ROME''"
    "truthy (CURRENT_GAME_URL paused_game) \<noteq> None" "truthy_chat (MAIN_CHAT_ID paused_game) \<noteq> None"
    by (simp_all add: paused_game_def rome_turn_def initial_state_def truthy_def truthy_chat_def)
  have b: "\<forall>e\<in>set [tick_at Resp304 (hours 5 + minutes 5), tick_at Resp304 (hours 5 + minutes 10)].
             steady ''ROME'' e \<or> quiet e"
    by (simp add: steady_304)
  have c: "now_changed (command_at [] Resp304 (hours 5)) = hours 5"
    "now_reminded (command_at [] Resp304 (hours 5)) = hours 5"
    by (simp_all add: command_at_def)
  note th = resume_rearms_holder[OF a(1) a(2), of "command_at [] Resp304 (hours 5)"
      "[tick_at Resp304 (hours 5 + minutes 5), tick_at Resp304 (hours 5 + minutes 10)]"]
  from th have 1: "NOTIFY_PAUSED (fst (snd (pause_notifications (command_at [] Resp304 (hours 5))
      paused_game))) = False" by blast
  from th have 2: "PLAYER_NOTIFICATION_STATE
     (fst (snd (pause_notifications (command_at [] Resp304 (hours 5)) paused_game))) ''ROME'' =
     Some \<lparr>last_turn_change_time = IsoStr (hours 5), next_reminder_index = Some 0,
           last_reminded_time = IsoStr (hours 5)\<rparr>"
    by (simp add: c)
  from th a(3) a(4) upper_ROME b
  have 3: "dispatches (snd (run_ticks [tick_at Resp304 (hours 5 + minutes 5),
                               tick_at Resp304 (hours 5 + minutes 10)]
                      (fst (snd (pause_notifications (command_at [] Resp304 (hours 5))
                                   paused_game))))) =
              scheduler (map (\<lambda>e. (now_check e, now_sent e)) (filter (steady ''ROME'')
                 [tick_at Resp304 (hours 5 + minutes 5), tick_at Resp304 (hours 5 + minutes 10)])) 0
                (now_reminded (command_at [] Resp304 (hours 5)))"
    by blast
  have 4: "scheduler (map (\<lambda>e. (now_check e, now_sent e)) (filter (steady ''ROME'')
                 [tick_at Resp304 (hours 5 + minutes 5), tick_at Resp304 (hours 5 + minutes 10)])) 0
                (now_reminded (command_at [] Resp304 (hours 5)))
           = [(hours 5 + minutes 10, minutes 10)]"
    by (simp add: command_at_def steady_304 tick_at_clock REMINDER_SCHEDULE_def minutes_def
        hours_def)
  show ?thesis
    using 1 2 3[unfolded 4] a(1) a(2) by blast
qed

subsection \<open>A change of turn\<close>

lemma turn_changed_state:
  "LAST_TURN_PLAYER (fst (turn_changed e raw n t s)) = Some n"
  "PLAYER_NOTIFICATION_STATE (fst (turn_changed e raw n t s)) n
     = Some (fresh_reminder_state (IsoStr t) (IsoStr t))"
  "AVAILABLE_NATIONS (fst (turn_changed e raw n t s)) = AVAILABLE_NATIONS s"
  "last_error_time_by_chat (fst (turn_changed e raw n t s)) = last_error_time_by_chat s"
  "STATE_FILE (fst (turn_changed e raw n t s)) =
     (if write_ok e
      then File \<lparr>snap_GAME_ID = GAME_ID s, snap_CURRENT_GAME_URL = CURRENT_GAME_URL s,
                  snap_MAIN_CHAT_ID = MAIN_CHAT_ID s, snap_PLAYER_LOGINS = Some (PLAYER_LOGINS s),
                  snap_LAST_TURN_PLAYER = Some n, snap_BOT_LANGUAGE = Some (BOT_LANGUAGE s),
                  snap_MONITOR_INTERVAL = Some (MONITOR_INTERVAL_SECONDS_DEFAULT s)\<rparr>
      else STATE_FILE s)"
  by (simp_all add: turn_changed_def Let_def save_state_def)

lemma attempts_simps:
  "attempts [] = []"
  "attempts (HttpGet u h # fx) = attempts fx"
  "attempts (Wrote p # fx) = attempts fx"
  "attempts (WriteFailed p # fx) = attempts fx"
  "attempts (send_message b c m # fx) = (c, m) # attempts fx"
  "attempts (xs @ ys) = attempts xs @ attempts ys"
  by (simp_all add: attempts_def List.map_filter_simps send_message_def map_filter_append)

lemma turn_changed_attempts:
  "attempts (snd (turn_changed e raw n t s)) =
     (case truthy_chat (MAIN_CHAT_ID s) of
        None \<Rightarrow> []
      | Some chat \<Rightarrow>
          if NOTIFY_PAUSED s then []
          else [(chat, case truthy (map_of (PLAYER_LOGINS s) n) of
                         Some player_login \<Rightarrow> NotifyMainPing raw player_login
                       | None \<Rightarrow> NotifyMainNoPing raw)])"
  by (simp add: turn_changed_def Let_def save_state_def attempts_simps split: option.splits)

text \<open>
  A tick that reaches the comparison of the players. When the answer has the active
  player \<open>raw\<close> whose normalised name differs from the last active key, and the turn start
  converts to \<open>t\<close>, the tick returns normally; the last active key becomes the normalised
  name; the reminder state of the new holder is index 0 with both timestamps \<open>t\<close>,
  whatever it was before; exactly one turn-change message is handed to the chat
  transport when a chat is set and notifications are not paused, and none otherwise;
  and \<^verbatim>\<open>save_state\<close> writes the snapshot with the new key. The time \<open>t\<close> is the converted
  turn start of the payload when the payload has one, and the clock when it has none.
\<close>

theorem turn_change_resets_reminders:
  assumes url: "truthy (CURRENT_GAME_URL s) = Some url"
    and f: "fetch_game_json (response e) url s = (Inr data, s1, fx)"
    and cp: "current_player_raw data s1 = Some raw"
    and ts: "turn_start_time e data = Inr t"
    and lp: "LAST_TURN_PLAYER s = Some prev" and ne: "upper raw \<noteq> prev"
  shows "fst (monitor_game_state e s) = None \<and>
         LAST_TURN_PLAYER (fst (snd (monitor_game_state e s))) = Some (upper raw) \<and>
         PLAYER_NOTIFICATION_STATE (fst (snd (monitor_game_state e s))) (upper raw) =
           Some \<lparr>last_turn_change_time = IsoStr t, next_reminder_index = Some 0,
                 last_reminded_time = IsoStr t\<rparr> \<and>
         attempts (snd (snd (monitor_game_state e s))) =
           (case truthy_chat (MAIN_CHAT_ID s) of
              None \<Rightarrow> []
            | Some chat \<Rightarrow>
                if NOTIFY_PAUSED s then []
                else [(chat, case truthy (map_of (PLAYER_LOGINS s) (upper raw)) of
                               Some player_login \<Rightarrow> NotifyMainPing raw player_login
                             | None \<Rightarrow> NotifyMainNoPing raw)]) \<and>
         (write_ok e \<longrightarrow>
            (\<exists>snap. STATE_FILE (fst (snd (monitor_game_state e s))) = File snap \<and>
                    snap_LAST_TURN_PLAYER snap = Some (upper raw))) \<and>
         (case data of
            Data (JObject pl) \<Rightarrow>
              (case currentTurnStartTime pl of
                 None \<Rightarrow> t = now_start e
               | Some ms \<Rightarrow>
                   (case fromtimestamp e ms of
                      ConvOk u \<Rightarrow> t = (if ms = 0 then now_start e else u)
                    | _ \<Rightarrow> t = now_start e))
          | _ \<Rightarrow> t = now_start e)"
proof -
  have k: "LAST_TURN_PLAYER s1 = Some prev" "MAIN_CHAT_ID s1 = MAIN_CHAT_ID s"
    "NOTIFY_PAUSED s1 = NOTIFY_PAUSED s" "PLAYER_LOGINS s1 = PLAYER_LOGINS s"
    "fx = [HttpGet url (truthy (ETAG_CACHE s url))]"
    using fetch_keeps[of "response e" url s] f lp by simp_all
  note m = monitor_changed[OF url f cp ts k(1) ne]
  have tt: "case data of
            Data (JObject pl) \<Rightarrow>
              (case currentTurnStartTime pl of
                 None \<Rightarrow> t = now_start e
               | Some ms \<Rightarrow>
                   (case fromtimestamp e ms of
                      ConvOk u \<Rightarrow> t = (if ms = 0 then now_start e else u)
                    | _ \<Rightarrow> t = now_start e))
          | _ \<Rightarrow> t = now_start e"
    using ts
    by (auto simp: turn_start_time_def Let_def
        split: fetched.splits json_data.splits option.splits conv.splits if_splits)
  have at: "attempts (snd (turn_changed e raw (upper raw) t s1)) =
           (case truthy_chat (MAIN_CHAT_ID s) of
              None \<Rightarrow> []
            | Some chat \<Rightarrow>
                if NOTIFY_PAUSED s then []
                else [(chat, case truthy (map_of (PLAYER_LOGINS s) (upper raw)) of
                               Some player_login \<Rightarrow> NotifyMainPing raw player_login
                             | None \<Rightarrow> NotifyMainNoPing raw)])"
    by (simp add: turn_changed_attempts k split: option.split)
  show ?thesis
    using tt
    by (simp add: m turn_changed_state at attempts_simps k(5) fresh_reminder_state_def)
qed

theorem turn_change_resets_reminders_witness:
  "LAST_TURN_PLAYER rome_turn = Some ''ROME'' \<and> upper ''Egypt'' \<noteq> ''ROME'' \<and>
   fst (monitor_game_state (egypt_tick (hours 3)) rome_turn) = None \<and>
   LAST_TURN_PLAYER (fst (snd (monitor_game_state (egypt_tick (hours 3)) rome_turn)))
     = Some ''EGYPT'' \<and>
   PLAYER_NOTIFICATION_STATE (fst (snd (monitor_game_state (egypt_tick (hours 3)) rome_turn)))
     ''EGYPT''
     = Some \<lparr>last_turn_change_time = IsoStr (hours 2), next_reminder_index = Some 0,
             last_reminded_time = IsoStr (hours 2)\<rparr> \<and>
   attempts (snd (snd (monitor_game_state (egypt_tick (hours 3)) rome_turn)))
     = [(7, NotifyMainNoPing ''Egypt'')]"
proof -
  have u: "upper ''Egypt'' = ''EGYPT''"
    by (simp add: upper_def upper_char_def)
  have a: "truthy (CURRENT_GAME_URL rome_turn) = Some ''https://uncivserver.xyz/jsons/g1''"
    "LAST_TURN_PLAYER rome_turn = Some ''ROME''"
    "truthy_chat (MAIN_CHAT_ID rome_turn) = Some 7" "\<not> NOTIFY_PAUSED rome_turn"
    "truthy (map_of (PLAYER_LOGINS rome_turn) ''EGYPT'') = None"
    by (simp_all add: rome_turn_def initial_state_def truthy_def truthy_chat_def)
  have f: "fetch_game_json (response (egypt_tick (hours 3))) ''https://uncivserver.xyz/jsons/g1''
             rome_turn
           = (Inr (Data (JObject egypt_payload)), rome_turn,
              [HttpGet ''https://uncivserver.xyz/jsons/g1''
                 (truthy (ETAG_CACHE rome_turn ''https://uncivserver.xyz/jsons/g1''))])"
    by (simp add: fetch_game_json_def egypt_tick_def tick_at_def truthy_def)
  have cp: "current_player_raw (Data (JObject egypt_payload)) rome_turn = Some ''Egypt''"
    by (simp add: current_player_raw_def egypt_payload_def truthy_def)
  have ts: "turn_start_time (egypt_tick (hours 3)) (Data (JObject egypt_payload)) = Inr (hours 2)"
    by (simp add: turn_start_time_def egypt_payload_def egypt_tick_def tick_at_def hours_def)
  have ne: "upper ''Egypt'' \<noteq> ''ROME''" by (simp add: u)
  from turn_change_resets_reminders[OF a(1) f cp ts a(2) ne] a(2) ne show ?thesis
    by (simp add: u a)
qed

text \<open>
  C3, where the code fails. It was the turn of Rome; the payload has Egypt as the active
  player and a turn start on which \<^verbatim>\<open>datetime.fromtimestamp\<close> raises OverflowError. Line 550
  catches ValueError only, so the exception leaves the tick before the players are
  compared: the last active key is still Rome, Egypt has no reminder state, no
  turn-change message is sent and nothing is saved.
\<close>

theorem overflowing_turn_start_aborts_turn_change:
  "current_player_raw (Data (JObject overflow_payload)) rome_turn = Some ''Egypt'' \<and>
   upper ''Egypt'' = ''EGYPT'' \<and>
   LAST_TURN_PLAYER rome_turn = Some ''ROME'' \<and>
   fst (monitor_game_state (overflow_tick (hours 3)) rome_turn) = Some OverflowError \<and>
   LAST_TURN_PLAYER (fst (snd (monitor_game_state (overflow_tick (hours 3)) rome_turn)))
     = Some ''ROME'' \<and>
   PLAYER_NOTIFICATION_STATE (fst (snd (monitor_game_state (overflow_tick (hours 3)) rome_turn)))
     ''EGYPT'' = None \<and>
   attempts (snd (snd (monitor_game_state (overflow_tick (hours 3)) rome_turn))) = [] \<and>
   STATE_FILE (fst (snd (monitor_game_state (overflow_tick (hours 3)) rome_turn))) = NoFile"
proof -
  have u: "upper ''Egypt'' = ''EGYPT''"
    by (simp add: upper_def upper_char_def)
  have a: "truthy (CURRENT_GAME_URL rome_turn) = Some ''https://uncivserver.xyz/jsons/g1''"
    "LAST_TURN_PLAYER rome_turn = Some ''ROME''"
    "PLAYER_NOTIFICATION_STATE rome_turn ''EGYPT'' = None" "STATE_FILE rome_turn = NoFile"
    by (simp_all add: rome_turn_def initial_state_def truthy_def)
  have f: "fetch_game_json (response (overflow_tick (hours 3))) ''https://uncivserver.xyz/jsons/g1''
             rome_turn
           = (Inr (Data (JObject overflow_payload)), rome_turn,
              [HttpGet ''https://uncivserver.xyz/jsons/g1''
                 (truthy (ETAG_CACHE rome_turn ''https://uncivserver.xyz/jsons/g1''))])"
    by (simp add: fetch_game_json_def overflow_tick_def tick_at_def truthy_def)
  have cp: "current_player_raw (Data (JObject overflow_payload)) rome_turn = Some ''Egypt''"
    by (simp add: current_player_raw_def overflow_payload_def egypt_payload_def truthy_def)
  have ts: "turn_start_time (overflow_tick (hours 3)) (Data (JObject overflow_payload))
              = Inl OverflowError"
    by (simp add: turn_start_time_def overflow_payload_def overflow_tick_def tick_at_def)
  have m: "monitor_game_state (overflow_tick (hours 3)) rome_turn
             = (Some OverflowError, rome_turn,
                [HttpGet ''https://uncivserver.xyz/jsons/g1''
                   (truthy (ETAG_CACHE rome_turn ''https://uncivserver.xyz/jsons/g1''))])"
    using a(1) f cp ts by (simp add: monitor_game_state_def Let_def)
  show ?thesis
    by (simp add: m cp u a attempts_simps)
qed

subsection \<open>The roster\<close>

lemma check_reminder_keeps:
  "AVAILABLE_NATIONS (fst (snd (check_reminder e p s))) = AVAILABLE_NATIONS s"
  "last_error_time_by_chat (fst (snd (check_reminder e p s))) = last_error_time_by_chat s"
  "MAIN_CHAT_ID (fst (snd (check_reminder e p s))) = MAIN_CHAT_ID s"
  "CURRENT_GAME_URL (fst (snd (check_reminder e p s))) = CURRENT_GAME_URL s"
  by (simp_all add: check_reminder_def Let_def save_state_def
      split: option.splits sum.splits prod.splits)

lemma first_observation_keeps:
  "last_error_time_by_chat (fst (first_observation e data n t s)) = last_error_time_by_chat s"
  "MAIN_CHAT_ID (fst (first_observation e data n t s)) = MAIN_CHAT_ID s"
  "CURRENT_GAME_URL (fst (first_observation e data n t s)) = CURRENT_GAME_URL s"
  "AVAILABLE_NATIONS (fst (first_observation e data n t s)) =
     (if human_civs data \<noteq> [] then named (human_civs data) else AVAILABLE_NATIONS s)"
  by (simp_all add: first_observation_def Let_def save_state_def)

lemma turn_changed_keeps:
  "MAIN_CHAT_ID (fst (turn_changed e raw n t s)) = MAIN_CHAT_ID s"
  "CURRENT_GAME_URL (fst (turn_changed e raw n t s)) = CURRENT_GAME_URL s"
  by (simp_all add: turn_changed_def Let_def save_state_def)








subsection \<open>States that arm the scheduler\<close>

lemma upper_char_idem: "upper_char (upper_char c) = upper_char c"
  by (simp add: upper_char_def)

lemma upper_idem: "upper (upper x) = upper x"
  by (simp add: upper_def upper_char_idem)

lemma upper_nonempty: "x \<noteq> [] \<Longrightarrow> upper x \<noteq> []"
  by (simp add: upper_def)

text \<open>The states in which the scheduler is armed are those the code itself leaves: a
  change of turn and a first observation, with a chat set and notifications not paused,
  arm the scheduler for the new holder at index 0 and the start of the turn.\<close>

lemma changed_tick_arms:
  assumes url: "truthy (CURRENT_GAME_URL s) = Some url"
    and f: "fetch_game_json (response e) url s = (Inr data, s1, fx)"
    and cp: "current_player_raw data s1 = Some raw"
    and ts: "turn_start_time e data = Inr t"
    and lp: "LAST_TURN_PLAYER s = Some prev" and ne: "upper raw \<noteq> prev"
    and chat: "truthy_chat (MAIN_CHAT_ID s) \<noteq> None" and np: "\<not> NOTIFY_PAUSED s"
  shows "armed (upper raw) 0 t (fst (snd (monitor_game_state e s)))"
proof -
  have k: "LAST_TURN_PLAYER s1 = Some prev" "MAIN_CHAT_ID s1 = MAIN_CHAT_ID s"
    "NOTIFY_PAUSED s1 = NOTIFY_PAUSED s" "CURRENT_GAME_URL s1 = CURRENT_GAME_URL s"
    using fetch_keeps[of "response e" url s] f lp by simp_all
  have r: "raw \<noteq> []" using cp by (simp add: current_player_raw_def truthy_Some_iff)
  note m = monitor_changed[OF url f cp ts k(1) ne]
  show ?thesis
    using url chat np r
    by (simp add: m armed_def turn_changed_state turn_changed_keeps k upper_idem upper_nonempty
        fresh_reminder_state_def turn_changed_def Let_def save_state_def)
qed

lemma first_tick_arms:
  assumes url: "truthy (CURRENT_GAME_URL s) = Some url"
    and f: "fetch_game_json (response e) url s = (Inr data, s1, fx)"
    and cp: "current_player_raw data s1 = Some raw"
    and ts: "turn_start_time e data = Inr t"
    and lp: "LAST_TURN_PLAYER s = None"
    and chat: "truthy_chat (MAIN_CHAT_ID s) \<noteq> None" and np: "\<not> NOTIFY_PAUSED s"
  shows "armed (upper raw) 0 t (fst (snd (monitor_game_state e s)))"
proof -
  have k: "LAST_TURN_PLAYER s1 = None" "MAIN_CHAT_ID s1 = MAIN_CHAT_ID s"
    "NOTIFY_PAUSED s1 = NOTIFY_PAUSED s" "CURRENT_GAME_URL s1 = CURRENT_GAME_URL s"
    using fetch_keeps[of "response e" url s] f lp by simp_all
  have r: "raw \<noteq> []" using cp by (simp add: current_player_raw_def truthy_Some_iff)
  note m = monitor_first[OF url f cp ts k(1)]
  show ?thesis
    using url chat np r
    by (simp add: m armed_def k upper_idem upper_nonempty
        fresh_reminder_state_def first_observation_def Let_def save_state_def)
qed

subsection \<open>Debounced error messages\<close>

lemma no_error_sent:
  "Sent c ErrorServerDown \<notin> set (snd (first_observation e data n t s))"
  "Sent c ErrorServerDown \<notin> set (snd (turn_changed e raw n t s))"
  "Sent c ErrorServerDown \<notin> set (snd (snd (check_reminder e p s)))"
  by (auto simp: first_observation_def turn_changed_def check_reminder_def Let_def save_state_def
      send_message_def split: option.splits sum.splits prod.splits if_splits)

lemma last_error_keeps:
  "last_error (fst (first_observation e data n t s)) c = last_error s c"
  "last_error (fst (turn_changed e raw n t s)) c = last_error s c"
  "last_error (fst (snd (check_reminder e p s))) c = last_error s c"
  "last_error (fst (snd (fetch_game_json r url s))) c = last_error s c"
  by (simp_all add: last_error_def first_observation_keeps turn_changed_state check_reminder_keeps
      fetch_keeps)

lemma send_debounced_error_step:
  "(Sent c ErrorServerDown \<in> set (snd (send_debounced_error n b chat ErrorServerDown s)) \<and>
    n - last_error s c \<ge> ERROR_DEBOUNCE_SECONDS \<and>
    last_error (fst (send_debounced_error n b chat ErrorServerDown s)) c = n) \<or>
   (Sent c ErrorServerDown \<notin> set (snd (send_debounced_error n b chat ErrorServerDown s)) \<and>
    last_error (fst (send_debounced_error n b chat ErrorServerDown s)) c = last_error s c)"
  by (auto simp: send_debounced_error_def Let_def last_error_def)

lemma tick_error_step:
  "(Sent c ErrorServerDown \<in> set (snd (snd (monitor_game_state e s))) \<and>
    time_time e - last_error s c \<ge> ERROR_DEBOUNCE_SECONDS \<and>
    last_error (fst (snd (monitor_game_state e s))) c = time_time e) \<or>
   (Sent c ErrorServerDown \<notin> set (snd (snd (monitor_game_state e s))) \<and>
    last_error (fst (snd (monitor_game_state e s))) c = last_error s c)"
proof (cases "truthy (CURRENT_GAME_URL s)")
  case None
  then show ?thesis by (simp add: monitor_game_state_def)
next
  case (Some url)
  obtain res s1 fx where f: "fetch_game_json (response e) url s = (res, s1, fx)"
    by (cases "fetch_game_json (response e) url s") auto
  have k: "last_error s1 c = last_error s c" "fx = [HttpGet url (truthy (ETAG_CACHE s url))]"
    using last_error_keeps(4)[of "response e" url s c] fetch_keeps(11)[of "response e" url s] f
    by simp_all
  show ?thesis
  proof (cases res)
    case (Inl x)
    show ?thesis
    proof (cases "truthy_chat (MAIN_CHAT_ID s1)")
      case None
      then show ?thesis using Some f Inl k by (simp add: monitor_game_state_def)
    next
      case (Some chat)
      have m: "monitor_game_state e s =
          (None, fst (send_debounced_error (time_time e) (deliver_ok e) chat ErrorServerDown s1),
           fx @ snd (send_debounced_error (time_time e) (deliver_ok e) chat ErrorServerDown s1))"
        using \<open>truthy (CURRENT_GAME_URL s) = Some url\<close> f Inl Some
        by (simp add: monitor_game_state_def Let_def)
      show ?thesis
        using send_debounced_error_step[of c "time_time e" "deliver_ok e" chat s1]
        by (simp add: m k)
    qed
  next
    case (Inr data)
    show ?thesis
      using Some f Inr k
      by (auto simp: monitor_game_state_def Let_def no_error_sent last_error_keeps
          split: option.splits sum.splits)
  qed
qed

lemma error_times_Cons:
  "error_times c ((e, fx) # tr) =
     (if Sent c ErrorServerDown \<in> set fx then time_time e # error_times c tr
      else error_times c tr)"
  by (simp add: error_times_def)

lemma run_spaced: "spaced (last_error s c) (error_times c (snd (run_ticks es s)))"
proof (induction es arbitrary: s)
  case Nil
  then show ?case by (simp add: error_times_def)
next
  case (Cons e es)
  from tick_error_step[of c e s] Cons.IH[of "fst (snd (monitor_game_state e s))"]
  show ?case
    by (auto simp: error_times_Cons)
qed

lemma monitor_failure:
  assumes "truthy (CURRENT_GAME_URL s) = Some url"
    and "fst (fetch_game_json (response e) url s) = Inl x"
    and "truthy_chat (MAIN_CHAT_ID s) = Some chat"
  shows "monitor_game_state e s =
          (None,
           fst (send_debounced_error (time_time e) (deliver_ok e) chat ErrorServerDown
                  (fst (snd (fetch_game_json (response e) url s)))),
           HttpGet url (truthy (ETAG_CACHE s url))
             # snd (send_debounced_error (time_time e) (deliver_ok e) chat ErrorServerDown
                      (fst (snd (fetch_game_json (response e) url s)))))"
proof -
  obtain s1 fx where f: "fetch_game_json (response e) url s = (Inl x, s1, fx)"
    using assms(2) by (cases "fetch_game_json (response e) url s") auto
  have k: "MAIN_CHAT_ID s1 = MAIN_CHAT_ID s" "fx = [HttpGet url (truthy (ETAG_CACHE s url))]"
    using fetch_keeps[of "response e" url s] f by simp_all
  show ?thesis
    using assms(1,3) by (simp add: monitor_game_state_def Let_def f k)
qed

lemma debounce_effects:
  "attempts (snd (send_debounced_error n b chat ErrorServerDown s)) =
     (if n - last_error s chat \<ge> ERROR_DEBOUNCE_SECONDS then [(chat, ErrorServerDown)] else [])"
  "notifications (snd (send_debounced_error n b chat ErrorServerDown s)) =
     (if n - last_error s chat \<ge> ERROR_DEBOUNCE_SECONDS \<and> b then [(chat, ErrorServerDown)] else [])"
  "last_error (fst (send_debounced_error n b chat ErrorServerDown s)) chat =
     (if n - last_error s chat \<ge> ERROR_DEBOUNCE_SECONDS \<and> b then n else last_error s chat)"
  by (simp_all add: send_debounced_error_def Let_def last_error_def attempts_def notifications_def
      List.map_filter_simps)

lemma notifications_simps:
  "notifications [] = []"
  "notifications (HttpGet u h # fx) = notifications fx"
  "notifications (Wrote p # fx) = notifications fx"
  "notifications (WriteFailed p # fx) = notifications fx"
  "notifications (Sent c m # fx) = (c, m) # notifications fx"
  "notifications (SendFailed c m # fx) = notifications fx"
  by (simp_all add: notifications_def List.map_filter_simps)

lemma debounce_ignores_pause:
  "snd (send_debounced_error n b chat m (s\<lparr>NOTIFY_PAUSED := p\<rparr>)) = snd (send_debounced_error n b chat m s)"
  by (simp add: send_debounced_error_def Let_def)

lemma fetch_ignores_pause:
  "fst (fetch_game_json r url (s\<lparr>NOTIFY_PAUSED := p\<rparr>)) = fst (fetch_game_json r url s)"
  "fst (snd (fetch_game_json r url (s\<lparr>NOTIFY_PAUSED := p\<rparr>)))
     = (fst (snd (fetch_game_json r url s)))\<lparr>NOTIFY_PAUSED := p\<rparr>"
  by (simp_all add: fetch_game_json_def Let_def split: http_response.splits option.splits)

text \<open>
  C7. In every run of ticks and for every chat, each error message delivered to the chat
  comes at least one debounce window (300 seconds of \<^verbatim>\<open>time.time()\<close>) after the one
  delivered before it, however many ticks fail in between. On a failing tick with a chat
  set, once the window has elapsed since the last delivered error message, exactly one
  error message is handed to the transport, and when it is delivered its time starts
  the next window; inside the window nothing is sent. What a failing tick sends does not
  depend on the pause flag. The debounce state is not in the snapshot: after a restart
  it is empty.
\<close>

theorem error_messages_are_debounced:
  "spaced (last_error s chat) (error_times chat (snd (run_ticks es s))) \<and>
   (truthy (CURRENT_GAME_URL s) = Some url \<and>
    fst (fetch_game_json (response e) url s) = Inl x \<and>
    truthy_chat (MAIN_CHAT_ID s) = Some chat \<longrightarrow>
      attempts (snd (snd (monitor_game_state e s))) =
        (if time_time e - last_error s chat \<ge> ERROR_DEBOUNCE_SECONDS
         then [(chat, ErrorServerDown)] else []) \<and>
      notifications (snd (snd (monitor_game_state e s))) =
        (if time_time e - last_error s chat \<ge> ERROR_DEBOUNCE_SECONDS \<and> deliver_ok e
         then [(chat, ErrorServerDown)] else []) \<and>
      last_error (fst (snd (monitor_game_state e s))) chat =
        (if time_time e - last_error s chat \<ge> ERROR_DEBOUNCE_SECONDS \<and> deliver_ok e
         then time_time e else last_error s chat) \<and>
      snd (snd (monitor_game_state e (s\<lparr>NOTIFY_PAUSED := b\<rparr>)))
        = snd (snd (monitor_game_state e s))) \<and>
   last_error_time_by_chat (restart lang interval s) = Map.empty"
proof -
  have 2: "attempts (snd (snd (monitor_game_state e s))) =
        (if time_time e - last_error s chat \<ge> ERROR_DEBOUNCE_SECONDS
         then [(chat, ErrorServerDown)] else []) \<and>
      notifications (snd (snd (monitor_game_state e s))) =
        (if time_time e - last_error s chat \<ge> ERROR_DEBOUNCE_SECONDS \<and> deliver_ok e
         then [(chat, ErrorServerDown)] else []) \<and>
      last_error (fst (snd (monitor_game_state e s))) chat =
        (if time_time e - last_error s chat \<ge> ERROR_DEBOUNCE_SECONDS \<and> deliver_ok e
         then time_time e else last_error s chat) \<and>
      snd (snd (monitor_game_state e (s\<lparr>NOTIFY_PAUSED := b\<rparr>)))
        = snd (snd (monitor_game_state e s))"
    if u: "truthy (CURRENT_GAME_URL s) = Some url"
      and f: "fst (fetch_game_json (response e) url s) = Inl x"
      and c: "truthy_chat (MAIN_CHAT_ID s) = Some chat"
  proof -
    note m = monitor_failure[OF u f c]
    have m': "monitor_game_state e (s\<lparr>NOTIFY_PAUSED := b\<rparr>) =
          (None,
           fst (send_debounced_error (time_time e) (deliver_ok e) chat ErrorServerDown
                  ((fst (snd (fetch_game_json (response e) url s)))\<lparr>NOTIFY_PAUSED := b\<rparr>)),
           HttpGet url (truthy (ETAG_CACHE s url))
             # snd (send_debounced_error (time_time e) (deliver_ok e) chat ErrorServerDown
                      ((fst (snd (fetch_game_json (response e) url s)))\<lparr>NOTIFY_PAUSED := b\<rparr>)))"
      using monitor_failure[of "s\<lparr>NOTIFY_PAUSED := b\<rparr>" url e x chat] u f c
      by (simp add: fetch_ignores_pause)
    show ?thesis
      by (simp add: m m' debounce_effects last_error_keeps debounce_ignores_pause
          attempts_simps notifications_simps)
  qed
  have 3: "last_error_time_by_chat (restart lang interval s) = Map.empty"
    by (simp add: restart_def load_state_def initial_state_def split: disk.splits)
  show ?thesis
    using run_spaced[of s chat es] 2 3 by blast
qed

lemma failing_run_example:
  "error_times 7 (snd (run_ticks [tick_at RespTimeout (minutes 20), tick_at RespTimeout (minutes 21),
                                  tick_at RespTimeout (minutes 25), tick_at RespTimeout (minutes 26)]
                         rome_turn))
     = [1200, 1500]"
  by (simp add: error_times_def monitor_game_state_def fetch_game_json_def send_debounced_error_def
      tick_at_def rome_turn_def initial_state_def truthy_def truthy_chat_def Let_def minutes_def
      ERROR_DEBOUNCE_SECONDS_def)

theorem error_messages_are_debounced_witness:
  "truthy (CURRENT_GAME_URL rome_turn) = Some ''https://uncivserver.xyz/jsons/g1'' \<and>
   fst (fetch_game_json (response (tick_at RespTimeout (minutes 20)))
          ''https://uncivserver.xyz/jsons/g1'' rome_turn) = Inl TimeoutError \<and>
   truthy_chat (MAIN_CHAT_ID rome_turn) = Some 7 \<and>
   notifications (snd (snd (monitor_game_state (tick_at RespTimeout (minutes 20)) rome_turn)))
     = [(7, ErrorServerDown)] \<and>
   error_times 7 (snd (run_ticks [tick_at RespTimeout (minutes 20), tick_at RespTimeout (minutes 21),
                                  tick_at RespTimeout (minutes 25), tick_at RespTimeout (minutes 26)]
                         rome_turn))
     = [1200, 1500] \<and>
   spaced (last_error rome_turn 7)
     (error_times 7 (snd (run_ticks [tick_at RespTimeout (minutes 20), tick_at RespTimeout (minutes 21),
                                     tick_at RespTimeout (minutes 25), tick_at RespTimeout (minutes 26)]
                            rome_turn)))"
proof -
  have a: "truthy (CURRENT_GAME_URL rome_turn) = Some ''https://uncivserver.xyz/jsons/g1''"
    "fst (fetch_game_json (response (tick_at RespTimeout (minutes 20)))
          ''https://uncivserver.xyz/jsons/g1'' rome_turn) = Inl TimeoutError"
    "truthy_chat (MAIN_CHAT_ID rome_turn) = Some 7"
    by (simp_all add: rome_turn_def initial_state_def truthy_def truthy_chat_def
        fetch_game_json_def tick_at_def)
  have l: "last_error rome_turn 7 = 0"
    by (simp add: last_error_def rome_turn_def initial_state_def)
  have t: "time_time (tick_at RespTimeout (minutes 20)) = 1200"
    "deliver_ok (tick_at RespTimeout (minutes 20))"
    by (simp_all add: tick_at_def minutes_def)
  note th = error_messages_are_debounced[of rome_turn 7
      "[tick_at RespTimeout (minutes 20), tick_at RespTimeout (minutes 21),
        tick_at RespTimeout (minutes 25), tick_at RespTimeout (minutes 26)]"
      "''https://uncivserver.xyz/jsons/g1''" "tick_at RespTimeout (minutes 20)" TimeoutError]
  from th a have "notifications (snd (snd (monitor_game_state (tick_at RespTimeout (minutes 20)) rome_turn)))
     = (if time_time (tick_at RespTimeout (minutes 20)) - last_error rome_turn 7 \<ge> ERROR_DEBOUNCE_SECONDS
           \<and> deliver_ok (tick_at RespTimeout (minutes 20))
         then [(7, ErrorServerDown)] else [])"
    by blast
  then have 1: "notifications (snd (snd (monitor_game_state (tick_at RespTimeout (minutes 20)) rome_turn)))
     = [(7, ErrorServerDown)]"
    by (simp add: l t ERROR_DEBOUNCE_SECONDS_def)
  from th have 2: "spaced (last_error rome_turn 7)
     (error_times 7 (snd (run_ticks [tick_at RespTimeout (minutes 20), tick_at RespTimeout (minutes 21),
        tick_at RespTimeout (minutes 25), tick_at RespTimeout (minutes 26)] rome_turn)))"
    by blast
  show ?thesis using a 1 2 failing_run_example by blast
qed

subsection \<open>The fetcher and its callers\<close>





end
